theory Spec2Isabelle
  imports Complex_Main "HOL-Library.Sublist" "HOL-Library.Log_Nat" "HOL-Library.Char_ord"
    "HOL-Library.List_Lexorder"
begin

section \<open>Data model of \<^verbatim>\<open>deal_flow.py\<close>\<close>

text \<open>
  The three string-valued enums of the source.  Each member carries the text that the
  code stores in the database (\<^verbatim>\<open>.value\<close>).
\<close>

datatype DealStage =
  AWARENESS | FIRST_MEETING | DEEP_DIVE | TERM_SHEET | DUE_DILIGENCE | CLOSING | PORTFOLIO | PASSED

fun DealStage_value :: "DealStage \<Rightarrow> string" where
  "DealStage_value AWARENESS = ''awareness''"
| "DealStage_value FIRST_MEETING = ''first_meeting''"
| "DealStage_value DEEP_DIVE = ''deep_dive''"
| "DealStage_value TERM_SHEET = ''term_sheet''"
| "DealStage_value DUE_DILIGENCE = ''due_diligence''"
| "DealStage_value CLOSING = ''closing''"
| "DealStage_value PORTFOLIO = ''portfolio''"
| "DealStage_value PASSED = ''passed''"

datatype DDCategory = LEGAL | FINANCIAL | TECHNICAL | MARKET | TEAM

fun DDCategory_value :: "DDCategory \<Rightarrow> string" where
  "DDCategory_value LEGAL = ''legal''"
| "DDCategory_value FINANCIAL = ''financial''"
| "DDCategory_value TECHNICAL = ''technical''"
| "DDCategory_value MARKET = ''market''"
| "DDCategory_value TEAM = ''team''"

datatype DDStatus = NOT_STARTED | IN_PROGRESS | COMPLETE | BLOCKED

fun DDStatus_value :: "DDStatus \<Rightarrow> string" where
  "DDStatus_value NOT_STARTED = ''not_started''"
| "DDStatus_value IN_PROGRESS = ''in_progress''"
| "DDStatus_value COMPLETE = ''complete''"
| "DDStatus_value BLOCKED = ''blocked''"

text \<open>
  Python does not enforce the annotations \<^verbatim>\<open>new_stage: DealStage\<close> and
  \<^verbatim>\<open>category: DDCategory\<close>; the code tests \<^verbatim>\<open>isinstance\<close> and stores any other
  value as it is.  An argument is therefore either an enum member or a raw string.
\<close>

datatype stage_arg = StageEnum DealStage | StageStr string

fun stage_text :: "stage_arg \<Rightarrow> string" where
  "stage_text (StageEnum s) = DealStage_value s"
| "stage_text (StageStr v) = v"

datatype category_arg = CategoryEnum DDCategory | CategoryStr string

fun category_text :: "category_arg \<Rightarrow> string" where
  "category_text (CategoryEnum c) = DDCategory_value c"
| "category_text (CategoryStr v) = v"

text \<open>The dataclass \<^verbatim>\<open>Deal\<close>, the object that \<^verbatim>\<open>add_deal\<close> returns.\<close>

record Deal =
  company :: string
  sector :: string
  raise_amount :: rat
  valuation :: rat
  stage :: DealStage
  lead_investor :: "string option"
  co_investors :: "string list"
  score :: int
  deal_notes :: string
  assigned_to :: "string option"
  deal_id :: string
  created_at :: string
  updated_at :: string
  website :: string
  founder :: string
  contact_email :: string

text \<open>The dataclass \<^verbatim>\<open>DueDiligence\<close>, the object that \<^verbatim>\<open>add_due_diligence\<close> returns.\<close>

record DueDiligence =
  dd_deal_id :: string
  dd_category :: category_arg
  dd_status :: DDStatus
  dd_findings :: "string list"
  dd_red_flags :: "string list"
  dd_rating :: int
  dd_reviewer :: string
  dd_id :: string
  dd_created_at :: string
  dd_updated_at :: string
  dd_notes :: string

text \<open>
  Rows of the four tables that \<^verbatim>\<open>init_db\<close> creates.  Columns holding
  \<^verbatim>\<open>json.dumps\<close> of a list of strings are kept as the list itself
  (\<^verbatim>\<open>json.loads\<close> gives it back unchanged).
\<close>

record deal_row =
  row_deal_id :: string
  row_company :: string
  row_sector :: string
  row_raise_amount :: rat
  row_valuation :: rat
  row_stage :: string
  row_lead_investor :: "string option"
  row_co_investors :: "string list"
  row_score :: int
  row_notes :: string
  row_assigned_to :: "string option"
  row_website :: string
  row_founder :: string
  row_contact_email :: string
  row_created_at :: string
  row_updated_at :: string

record due_diligence_row =
  ddr_dd_id :: string
  ddr_deal_id :: string
  ddr_category :: string
  ddr_status :: string
  ddr_findings :: "string list"
  ddr_red_flags :: "string list"
  ddr_rating :: int
  ddr_reviewer :: string
  ddr_notes :: string
  ddr_created_at :: string
  ddr_updated_at :: string

record stage_change_row =
  sc_change_id :: string
  sc_deal_id :: string
  sc_old_stage :: string
  sc_new_stage :: string
  sc_changed_by :: string
  sc_reason :: string
  sc_changed_at :: string

record interaction_row =
  i_interaction_id :: string
  i_deal_id :: string
  i_type :: string
  i_description :: string
  i_participants :: "string list"
  i_date :: string
  i_created_at :: string

text \<open>
  The database file after \<^verbatim>\<open>init_db\<close>: \<^verbatim>\<open>deals\<close> is keyed by its primary key,
  the other tables keep their rows in insertion order.
\<close>

record db =
  deals :: "string \<rightharpoonup> deal_row"
  due_diligence :: "due_diligence_row list"
  stage_changes :: "stage_change_row list"
  interactions :: "interaction_row list"

definition empty_db :: db where
  "empty_db = \<lparr>deals = Map.empty, due_diligence = [], stage_changes = [], interactions = []\<rparr>"

text \<open>
  The exceptions an operation can raise: the \<^verbatim>\<open>ValueError\<close>s of the code with their
  messages, and \<^verbatim>\<open>sqlite3.IntegrityError\<close> from a primary-key or foreign-key constraint
  of the schema (\<^verbatim>\<open>get_connection\<close> switches \<^verbatim>\<open>PRAGMA foreign_keys\<close> on).
\<close>

datatype error = ValueError string | IntegrityError string

definition deal_not_found :: "string \<Rightarrow> error" where
  "deal_not_found did = ValueError (''Deal '' @ did @ '' not found'')"

definition rating_out_of_range :: error where
  "rating_out_of_range = ValueError ''Rating must be between 1 and 5''"

section \<open>Python floats\<close>

text \<open>
  A Python \<^verbatim>\<open>float\<close> is a binary64 number, and every float operation of the source
  (\<^verbatim>\<open>/\<close>, \<^verbatim>\<open>*\<close>, \<^verbatim>\<open>round\<close>) returns the exact result rounded to the nearest
  number with a 53-bit significand, ties to the even significand.  Finite floats are kept
  as the rationals they denote and \<open>fl\<close> is that rounding.  The exponent range is not
  modelled: no overflow to infinity, no subnormal numbers, no NaN.
\<close>

definition pow2 :: "int \<Rightarrow> rat" where
  "pow2 e = (if 0 \<le> e then 2 ^ nat e else 1 / 2 ^ nat (- e))"

definition round_half_even :: "rat \<Rightarrow> int" where
  "round_half_even x =
     (let f = \<lfloor>x\<rfloor>; r = x - of_int f
      in if r < 1 / 2 then f else if 1 / 2 < r then f + 1 else if even f then f else f + 1)"

text \<open>The exponent \<open>e\<close> of a positive number: \<open>2 ^ e \<le> x < 2 ^ (e + 1)\<close>.\<close>

definition binade :: "rat \<Rightarrow> int" where
  "binade x = (if 1 \<le> x then int (floorlog 2 (nat \<lfloor>x\<rfloor>)) - 1
               else - int (floorlog 2 (nat (\<lceil>1 / x\<rceil> - 1))))"

definition fl :: "rat \<Rightarrow> rat" where
  "fl x = (if x = 0 then 0
           else (let u = pow2 (binade \<bar>x\<bar> - 52) in of_int (round_half_even (x / u)) * u))"

text \<open>
  The finite floats: the numbers below \<open>2 ^ 1024\<close> in magnitude that are a multiple of
  \<open>2 ^ - 1074\<close> when subnormal (zero included) and that rounding to 53 bits leaves
  unchanged otherwise.
\<close>

definition finite_float :: "rat \<Rightarrow> bool" where
  "finite_float x =
     (\<bar>x\<bar> < pow2 1024 \<and>
      (if \<bar>x\<bar> < pow2 (- 1022) then rat_of_int \<lfloor>x * 2 ^ 1074\<rfloor> = x * 2 ^ 1074
       else fl x = x))"

text \<open>\<^verbatim>\<open>int(x)\<close> on a float truncates towards zero.\<close>

definition py_int :: "rat \<Rightarrow> int" where
  "py_int x = (if 0 \<le> x then \<lfloor>x\<rfloor> else \<lceil>x\<rceil>)"

text \<open>
  \<^verbatim>\<open>round(x, 2)\<close> on a float: the exact value of \<^verbatim>\<open>x\<close> is rounded to two places after
  the decimal point, ties to the even digit, and the decimal result is converted back to
  the nearest float.
\<close>

definition py_round2 :: "rat \<Rightarrow> rat" where
  "py_round2 x = fl (of_int (round_half_even (x * 100)) / 100)"

text \<open>The property \<^verbatim>\<open>Deal.multiple_on_capital\<close>.\<close>

definition multiple_on_capital :: "Deal \<Rightarrow> rat" where
  "multiple_on_capital d =
     (if raise_amount d = 0 then 0
      else py_round2 (fl (valuation d / raise_amount d)))"

section \<open>Operations\<close>

text \<open>
  Every operation takes the database and returns the outcome (\<open>Inl\<close> the exception
  raised, \<open>Inr\<close> the value returned) together with the database as committed afterwards.
  The values of \<^verbatim>\<open>uuid.uuid4()\<close> and \<^verbatim>\<open>datetime.utcnow().isoformat()\<close> are
  arguments, one per call in the source.  An exception leaves the connection without
  \<^verbatim>\<open>commit\<close>, so the committed database is the one before the call.
\<close>

text \<open>
  \<^verbatim>\<open>add_deal\<close> passes \<^verbatim>\<open>raise_amount\<close> and \<^verbatim>\<open>valuation\<close> to the \<^verbatim>\<open>INSERT\<close> as they
  are.  The parameters here are the finite floats of the annotation
  \<^verbatim>\<open>raise_amount: float\<close>, kept as rationals (\<open>finite_float\<close>): SQLite binds such a value
  and its \<^verbatim>\<open>REAL\<close> column stores it exactly.  Other Python values are not values of the
  parameter type: an \<^verbatim>\<open>int\<close> outside 64 bits makes the \<^verbatim>\<open>sqlite3\<close> module raise
  \<^verbatim>\<open>OverflowError\<close>, a NaN is bound as \<^verbatim>\<open>NULL\<close> and violates \<^verbatim>\<open>NOT NULL\<close>, and an
  \<^verbatim>\<open>int\<close> within 64 bits is stored rounded to a float.
\<close>

definition add_deal ::
  "db \<Rightarrow> string \<Rightarrow> string \<Rightarrow> string \<Rightarrow> string \<Rightarrow> string \<Rightarrow> rat \<Rightarrow> rat \<Rightarrow> string option \<Rightarrow>
   string option \<Rightarrow> string \<Rightarrow> string \<Rightarrow> string \<Rightarrow> string \<Rightarrow> (error + Deal) \<times> db" where
  "add_deal d uuid now1 now2 company' sector' raise_amount' valuation' lead_investor'
      assigned_to' notes' founder' contact_email' website' =
    (let deal = \<lparr>company = company', sector = sector', raise_amount = raise_amount',
                  valuation = valuation', stage = AWARENESS, lead_investor = lead_investor',
                  co_investors = [], score = 0, deal_notes = notes', assigned_to = assigned_to',
                  deal_id = uuid, created_at = now1, updated_at = now2, website = website',
                  founder = founder', contact_email = contact_email'\<rparr>
     in if deals d (deal_id deal) \<noteq> None
        then (Inl (IntegrityError ''UNIQUE constraint failed: deals.deal_id''), d)
        else (Inr deal,
              d\<lparr>deals := (deals d)(deal_id deal \<mapsto>
                   \<lparr>row_deal_id = deal_id deal, row_company = company', row_sector = sector',
                    row_raise_amount = raise_amount', row_valuation = valuation',
                    row_stage = DealStage_value (stage deal), row_lead_investor = lead_investor',
                    row_co_investors = [], row_score = 0, row_notes = notes',
                    row_assigned_to = assigned_to', row_website = website',
                    row_founder = founder', row_contact_email = contact_email',
                    row_created_at = created_at deal, row_updated_at = updated_at deal\<rparr>)\<rparr>))"

definition advance_stage ::
  "db \<Rightarrow> string \<Rightarrow> string \<Rightarrow> string \<Rightarrow> stage_arg \<Rightarrow> string \<Rightarrow> string \<Rightarrow> (error + bool) \<times> db" where
  "advance_stage d uuid now did new_stage changed_by reason =
    (case deals d did of
       None \<Rightarrow> (Inl (deal_not_found did), d)
     | Some row \<Rightarrow>
        (let old_stage = row_stage row;
             new_stage_val = stage_text new_stage
         in if uuid \<in> set (map sc_change_id (stage_changes d))
            then (Inl (IntegrityError ''UNIQUE constraint failed: stage_changes.change_id''), d)
            else (Inr True,
                  d\<lparr>deals := (deals d)(did \<mapsto> row\<lparr>row_stage := new_stage_val, row_updated_at := now\<rparr>),
                    stage_changes := stage_changes d @
                      [\<lparr>sc_change_id = uuid, sc_deal_id = did, sc_old_stage = old_stage,
                        sc_new_stage = new_stage_val, sc_changed_by = changed_by,
                        sc_reason = reason, sc_changed_at = now\<rparr>]\<rparr>)))"

definition add_due_diligence ::
  "db \<Rightarrow> string \<Rightarrow> string \<Rightarrow> string \<Rightarrow> string \<Rightarrow> category_arg \<Rightarrow> string list \<Rightarrow>
   string list option \<Rightarrow> int \<Rightarrow> string \<Rightarrow> string \<Rightarrow> (error + DueDiligence) \<times> db" where
  "add_due_diligence d uuid now1 now2 did category findings red_flags rating reviewer notes' =
    (case deals d did of
       None \<Rightarrow> (Inl (deal_not_found did), d)
     | Some row \<Rightarrow>
        if \<not> (1 \<le> rating \<and> rating \<le> 5) then (Inl rating_out_of_range, d)
        else
          (let flags = (case red_flags of None \<Rightarrow> [] | Some fs \<Rightarrow> fs);
               dd = \<lparr>dd_deal_id = did, dd_category = category, dd_status = COMPLETE,
                     dd_findings = findings, dd_red_flags = flags, dd_rating = rating,
                     dd_reviewer = reviewer, dd_id = uuid, dd_created_at = now1,
                     dd_updated_at = now2, dd_notes = notes'\<rparr>
           in if dd_id dd \<in> set (map ddr_dd_id (due_diligence d))
              then (Inl (IntegrityError ''UNIQUE constraint failed: due_diligence.dd_id''), d)
              else (Inr dd,
                    d\<lparr>due_diligence := due_diligence d @
                        [\<lparr>ddr_dd_id = dd_id dd, ddr_deal_id = did,
                          ddr_category = category_text category,
                          ddr_status = DDStatus_value COMPLETE, ddr_findings = findings,
                          ddr_red_flags = flags, ddr_rating = rating, ddr_reviewer = reviewer,
                          ddr_notes = notes', ddr_created_at = dd_created_at dd,
                          ddr_updated_at = dd_updated_at dd\<rparr>]\<rparr>)))"

text \<open>
  In \<^verbatim>\<open>score_deal\<close> the quotient \<^verbatim>\<open>total_rating / len(dd_items)\<close> of two
  integers is a float, correctly rounded, and so are the quotient by \<^verbatim>\<open>5.0\<close> and the
  product with \<^verbatim>\<open>80\<close>.
\<close>

definition score_deal :: "db \<Rightarrow> string \<Rightarrow> string \<Rightarrow> (error + int) \<times> db" where
  "score_deal d now did =
    (case deals d did of
       None \<Rightarrow> (Inl (deal_not_found did), d)
     | Some row \<Rightarrow>
        (let dd_items = filter (\<lambda>r. ddr_deal_id r = did) (due_diligence d)
         in if dd_items = [] then (Inr 0, d)
            else
              (let total_rating = sum_list (map ddr_rating (filter (\<lambda>r. ddr_rating r > 0) dd_items));
                   avg_rating = (if dd_items \<noteq> []
                                 then fl (rat_of_int total_rating / rat_of_nat (length dd_items))
                                 else 0);
                   base_score = py_int (fl (fl (avg_rating / 5) * 80));
                   total_red_flags = sum_list (map (\<lambda>r. int (length (ddr_red_flags r))) dd_items);
                   penalty = min (total_red_flags * 5) 30;
                   categories_covered = int (card (set (map ddr_category dd_items)));
                   coverage_bonus = min (categories_covered * 4) 20;
                   score' = max 0 (min 100 (base_score - penalty + coverage_bonus))
               in (Inr score',
                   d\<lparr>deals := (deals d)(did \<mapsto> row\<lparr>row_score := score', row_updated_at := now\<rparr>)\<rparr>))))"

definition pass_deal ::
  "db \<Rightarrow> string \<Rightarrow> string \<Rightarrow> string \<Rightarrow> string \<Rightarrow> string \<Rightarrow> (error + bool) \<times> db" where
  "pass_deal d uuid now did reason passed_by =
    (case deals d did of
       None \<Rightarrow> (Inl (deal_not_found did), d)
     | Some row \<Rightarrow>
        (let old_stage = row_stage row
         in if uuid \<in> set (map sc_change_id (stage_changes d))
            then (Inl (IntegrityError ''UNIQUE constraint failed: stage_changes.change_id''), d)
            else (Inr True,
                  d\<lparr>deals := (deals d)(did \<mapsto>
                       row\<lparr>row_stage := DealStage_value PASSED, row_updated_at := now,
                           row_notes := row_notes row @ (CHR 0x0A # ''[PASSED] '' @ reason)\<rparr>),
                    stage_changes := stage_changes d @
                      [\<lparr>sc_change_id = uuid, sc_deal_id = did, sc_old_stage = old_stage,
                        sc_new_stage = DealStage_value PASSED, sc_changed_by = passed_by,
                        sc_reason = reason, sc_changed_at = now\<rparr>]\<rparr>)))"

text \<open>
  \<^verbatim>\<open>log_interaction\<close> makes no lookup of the deal: its only statement is the
  \<^verbatim>\<open>INSERT\<close>, which the schema's foreign key on \<^verbatim>\<open>deal_id\<close> rejects when the
  deal is missing.  \<^verbatim>\<open>x or y\<close> takes \<^verbatim>\<open>y\<close> when \<^verbatim>\<open>x\<close> is \<^verbatim>\<open>None\<close> or empty.
\<close>

definition log_interaction ::
  "db \<Rightarrow> string \<Rightarrow> string \<Rightarrow> string \<Rightarrow> string \<Rightarrow> string \<Rightarrow> string \<Rightarrow> string list option \<Rightarrow>
   string option \<Rightarrow> (error + string) \<times> db" where
  "log_interaction d uuid now1 now2 did interaction_type description participants date =
    (let interaction_id = uuid;
         ps = (case participants of None \<Rightarrow> [] | Some p \<Rightarrow> p);
         dt = (case date of None \<Rightarrow> take 10 now1
               | Some s \<Rightarrow> if s = [] then take 10 now1 else s)
     in if interaction_id \<in> set (map i_interaction_id (interactions d))
        then (Inl (IntegrityError ''UNIQUE constraint failed: interactions.interaction_id''), d)
        else if deals d did = None
        then (Inl (IntegrityError ''FOREIGN KEY constraint failed''), d)
        else (Inr interaction_id,
              d\<lparr>interactions := interactions d @
                  [\<lparr>i_interaction_id = interaction_id, i_deal_id = did, i_type = interaction_type,
                    i_description = description, i_participants = ps, i_date = dt,
                    i_created_at = now2\<rparr>]\<rparr>))"

text \<open>
  \<^verbatim>\<open>get_deal_details\<close> only reads.  Its result is the deal's row with the deal's
  reports ordered by \<^verbatim>\<open>created_at\<close>, its stage changes ordered by \<^verbatim>\<open>changed_at\<close> and
  its interactions ordered by \<^verbatim>\<open>date\<close>, latest first; the texts are compared as SQLite
  compares them, character by character, and rows with equal keys stay in insertion order
  in all three lists.
\<close>

record deal_details =
  dt_deal :: deal_row
  dt_due_diligence :: "due_diligence_row list"
  dt_stage_history :: "stage_change_row list"
  dt_interactions :: "interaction_row list"

definition get_deal_details :: "db \<Rightarrow> string \<Rightarrow> error + deal_details" where
  "get_deal_details d did =
    (case deals d did of
       None \<Rightarrow> Inl (deal_not_found did)
     | Some deal \<Rightarrow>
        (let dd_items = sort_key ddr_created_at (filter (\<lambda>r. ddr_deal_id r = did) (due_diligence d));
             stage_hist = sort_key sc_changed_at (filter (\<lambda>r. sc_deal_id r = did) (stage_changes d));
             interactions' =
               rev (sort_key i_date (rev (filter (\<lambda>r. i_deal_id r = did) (interactions d))))
         in Inr \<lparr>dt_deal = deal, dt_due_diligence = dd_items, dt_stage_history = stage_hist,
                 dt_interactions = interactions'\<rparr>))"

section \<open>Databases built by the operations\<close>

text \<open>
  The databases a client can build: starting from the empty tables, any sequence of calls
  of the six operations, with any arguments, failed calls included.
\<close>

inductive reachable :: "db \<Rightarrow> bool" where
  reach_init: "reachable empty_db"
| reach_add_deal:
    "reachable d \<Longrightarrow>
     reachable (snd (add_deal d uuid now1 now2 c s r v lead asg nts fnd eml web))"
| reach_advance_stage:
    "reachable d \<Longrightarrow> reachable (snd (advance_stage d uuid now did new_stage changed_by reason))"
| reach_add_due_diligence:
    "reachable d \<Longrightarrow>
     reachable (snd (add_due_diligence d uuid now1 now2 did cat fs rf rating reviewer nts))"
| reach_score_deal:
    "reachable d \<Longrightarrow> reachable (snd (score_deal d now did))"
| reach_pass_deal:
    "reachable d \<Longrightarrow> reachable (snd (pass_deal d uuid now did reason passed_by))"
| reach_log_interaction:
    "reachable d \<Longrightarrow>
     reachable (snd (log_interaction d uuid now1 now2 did ty descr ps dt))"

text \<open>The reports of one deal, as \<^verbatim>\<open>SELECT * FROM due_diligence WHERE deal_id=?\<close> returns them.\<close>

definition reports_of :: "db \<Rightarrow> string \<Rightarrow> due_diligence_row list" where
  "reports_of d did = filter (\<lambda>r. ddr_deal_id r = did) (due_diligence d)"

subsection \<open>The scoring formula as the specification words it\<close>

definition clamp :: "int \<Rightarrow> int \<Rightarrow> int \<Rightarrow> int" where
  "clamp x lo hi = (if x < lo then lo else if hi < x then hi else x)"

definition spec_avg_rating :: "due_diligence_row list \<Rightarrow> rat" where
  "spec_avg_rating items =
     rat_of_int (\<Sum>r\<leftarrow>items. if 0 < ddr_rating r then ddr_rating r else 0)
       / rat_of_nat (length items)"

definition spec_base_score :: "due_diligence_row list \<Rightarrow> int" where
  "spec_base_score items = \<lfloor>spec_avg_rating items / 5 * 80\<rfloor>"

definition spec_penalty :: "due_diligence_row list \<Rightarrow> int" where
  "spec_penalty items = min ((\<Sum>r\<leftarrow>items. int (length (ddr_red_flags r))) * 5) 30"

definition spec_coverage_bonus :: "due_diligence_row list \<Rightarrow> int" where
  "spec_coverage_bonus items = min (int (length (remdups (map ddr_category items))) * 4) 20"

definition spec_score :: "due_diligence_row list \<Rightarrow> int" where
  "spec_score items =
     clamp (spec_base_score items - spec_penalty items + spec_coverage_bonus items) 0 100"

subsection \<open>Example databases\<close>

text \<open>The deal of the test suite's \<^verbatim>\<open>make_deal\<close>, created on the empty database.\<close>

definition acme_db :: db where
  "acme_db = snd (add_deal empty_db ''d1'' ''2025-01-01T09:00:00'' ''2025-01-01T09:00:00''
                    ''AcmeCo'' ''SaaS'' 5000000 25000000 None None [] [] [] [])"

text \<open>Scenario B: two reports, ratings 4 and 5, no red flags, categories technical and market.\<close>

definition scenario_b_db :: db where
  "scenario_b_db =
     snd (add_due_diligence
            (snd (add_due_diligence acme_db ''r1'' ''2025-01-02T09:00:00'' ''2025-01-02T09:00:00''
                    ''d1'' (CategoryEnum TECHNICAL) [''Good tech''] None 4 ''CTO'' []))
            ''r2'' ''2025-01-03T09:00:00'' ''2025-01-03T09:00:00''
            ''d1'' (CategoryEnum MARKET) [''Large TAM''] None 5 ''VP'' [])"

text \<open>The row of that deal, and the Deal object \<^verbatim>\<open>add_deal\<close> returned for it (Scenario A).\<close>

definition acme_row :: deal_row where
  "acme_row = \<lparr>row_deal_id = ''d1'', row_company = ''AcmeCo'', row_sector = ''SaaS'',
        row_raise_amount = 5000000, row_valuation = 25000000, row_stage = ''awareness'',
        row_lead_investor = None, row_co_investors = [], row_score = 0, row_notes = [],
        row_assigned_to = None, row_website = [], row_founder = [], row_contact_email = [],
        row_created_at = ''2025-01-01T09:00:00'', row_updated_at = ''2025-01-01T09:00:00''\<rparr>"

definition acme_deal :: Deal where
  "acme_deal = \<lparr>company = ''AcmeCo'', sector = ''SaaS'', raise_amount = 5000000,
        valuation = 25000000, stage = AWARENESS, lead_investor = None, co_investors = [],
        score = 0, deal_notes = [], assigned_to = None, deal_id = ''d1'',
        created_at = ''2025-01-01T09:00:00'', updated_at = ''2025-01-01T09:00:00'',
        website = [], founder = [], contact_email = []\<rparr>"

text \<open>The deal moved straight to closing, and the deal of Scenario B after scoring.\<close>

definition closing_db :: db where
  "closing_db = snd (advance_stage acme_db ''c1'' ''2025-01-05T09:00:00'' ''d1''
                       (StageEnum CLOSING) ''analyst'' ''fast track'')"

definition scored_db :: db where
  "scored_db = snd (score_deal scenario_b_db ''2025-01-04T09:00:00'' ''d1'')"

text \<open>Three interactions logged for the deal, the first two on the same date.\<close>

definition interactions_db :: db where
  "interactions_db =
     snd (log_interaction
       (snd (log_interaction
         (snd (log_interaction acme_db ''i1'' ''2025-01-20T09:00:00'' ''2025-01-20T09:00:00''
                 ''d1'' ''call'' ''Intro call'' None (Some ''2025-01-15'')))
         ''i2'' ''2025-01-20T09:01:00'' ''2025-01-20T09:01:00''
         ''d1'' ''email'' ''Deck sent'' None (Some ''2025-01-15'')))
       ''i3'' ''2025-01-20T09:02:00'' ''2025-01-20T09:02:00''
       ''d1'' ''meeting'' ''On site'' None (Some ''2025-01-16''))"

subsection \<open>Invariants\<close>

definition scores_in_range :: "db \<Rightarrow> bool" where
  "scores_in_range d =
     (\<forall>did row. deals d did = Some row \<longrightarrow> 0 \<le> row_score row \<and> row_score row \<le> 100)"

definition unscored_zero :: "db \<Rightarrow> bool" where
  "unscored_zero d =
     (\<forall>did row. deals d did = Some row \<and> reports_of d did = [] \<longrightarrow> row_score row = 0)"

definition ratings_valid :: "db \<Rightarrow> bool" where
  "ratings_valid d = (\<forall>r \<in> set (due_diligence d). 1 \<le> ddr_rating r \<and> ddr_rating r \<le> 5)"

section \<open>Rounding to binary64\<close>

lemma pow2_power_int: "pow2 e = power_int 2 e"
  by (simp add: pow2_def power_int_def field_simps)

lemma pow2_pos: "0 < pow2 e"
  by (simp add: pow2_def)

lemma pow2_shift: "pow2 (e - 52) = pow2 e / 2 ^ 52"
proof -
  have "power_int (2::rat) (e - 52) = power_int 2 e / power_int 2 52"
    by (rule power_int_diff) simp
  then show ?thesis by (simp add: pow2_power_int)
qed

lemma binade_lower:
  assumes "0 < x"
  shows "pow2 (binade x) \<le> x"
proof (cases "1 \<le> x")
  case True
  define m where "m = nat \<lfloor>x\<rfloor>"
  from True have m: "0 < m" by (simp add: m_def)
  from floorlog_bounds [OF m, of 2] have b: "2 ^ (floorlog 2 m - 1) \<le> m" by simp
  from m have f: "0 < floorlog 2 m" by (simp add: floorlog_def)
  have "pow2 (binade x) = 2 ^ (floorlog 2 m - 1)"
    using True f by (simp add: binade_def pow2_def m_def nat_diff_distrib')
  also have "\<dots> = rat_of_nat (2 ^ (floorlog 2 m - 1))" by simp
  also have "\<dots> \<le> rat_of_nat m" using b by (simp only: of_nat_le_iff)
  also have "\<dots> = of_int \<lfloor>x\<rfloor>" using True by (simp add: m_def)
  also have "\<dots> \<le> x" by simp
  finally show ?thesis .
next
  case False
  define c where "c = \<lceil>1 / x\<rceil>"
  define k where "k = nat (c - 1)"
  from False assms have y: "1 < 1 / x" by simp
  then have c2: "2 \<le> c" unfolding c_def by linarith
  then have k: "0 < k" by (simp add: k_def)
  from floorlog_bounds [OF k, of 2] have b: "k < 2 ^ floorlog 2 k" by simp
  from k have f: "0 < floorlog 2 k" by (simp add: floorlog_def)
  have s: "Suc k \<le> 2 ^ floorlog 2 k" using b by simp
  have "1 / x \<le> of_int c" unfolding c_def by simp
  also have "of_int c = rat_of_nat (Suc k)" using c2 by (simp add: k_def)
  also have "\<dots> \<le> rat_of_nat (2 ^ floorlog 2 k)" using s by (simp only: of_nat_le_iff)
  also have "\<dots> = 2 ^ floorlog 2 k" by simp
  finally have "1 / x \<le> 2 ^ floorlog 2 k" .
  then have "1 / 2 ^ floorlog 2 k \<le> x" using assms by (simp add: field_simps)
  moreover have "pow2 (binade x) = 1 / 2 ^ floorlog 2 k"
    using False f by (simp add: binade_def pow2_def k_def c_def)
  ultimately show ?thesis by simp
qed

lemma binade_upper:
  assumes "0 < x"
  shows "x < pow2 (binade x + 1)"
proof (cases "1 \<le> x")
  case True
  define m where "m = nat \<lfloor>x\<rfloor>"
  from True have m: "0 < m" by (simp add: m_def)
  from floorlog_bounds [OF m, of 2] have b: "m < 2 ^ floorlog 2 m" by simp
  have "x < of_int \<lfloor>x\<rfloor> + 1" by linarith
  also have "\<dots> = rat_of_nat (Suc m)" using True by (simp add: m_def)
  also have "\<dots> \<le> rat_of_nat (2 ^ floorlog 2 m)"
  proof -
    from b have "Suc m \<le> 2 ^ floorlog 2 m" by simp
    then show ?thesis by (simp only: of_nat_le_iff)
  qed
  also have "\<dots> = pow2 (binade x + 1)"
    using True by (simp add: binade_def pow2_def m_def)
  finally show ?thesis .
next
  case False
  define c where "c = \<lceil>1 / x\<rceil>"
  define k where "k = nat (c - 1)"
  from False assms have y: "1 < 1 / x" by simp
  then have c2: "2 \<le> c" unfolding c_def by linarith
  then have k: "0 < k" by (simp add: k_def)
  from floorlog_bounds [OF k, of 2] have b: "2 ^ (floorlog 2 k - 1) \<le> k" by simp
  from k have f: "0 < floorlog 2 k" by (simp add: floorlog_def)
  have "2 ^ (floorlog 2 k - 1) = rat_of_nat (2 ^ (floorlog 2 k - 1))" by simp
  also have "\<dots> \<le> rat_of_nat k" using b by (simp only: of_nat_le_iff)
  also have "rat_of_nat k = of_int c - 1" using c2 by (simp add: k_def)
  also have "of_int c - 1 < 1 / x" unfolding c_def by linarith
  finally have "2 ^ (floorlog 2 k - 1) < 1 / x" .
  then have "x < 1 / 2 ^ (floorlog 2 k - 1)" using assms by (simp add: field_simps)
  moreover have "pow2 (binade x + 1) = 1 / 2 ^ (floorlog 2 k - 1)"
    using False f by (auto simp: binade_def pow2_def k_def c_def nat_diff_distrib')
  ultimately show ?thesis by simp
qed

lemma round_half_even_error: "\<bar>of_int (round_half_even y) - y\<bar> \<le> 1 / 2"
proof -
  have "0 \<le> y - of_int \<lfloor>y\<rfloor>" "y - of_int \<lfloor>y\<rfloor> < 1" by linarith+
  then show ?thesis by (auto simp: round_half_even_def Let_def)
qed

lemma fl_error:
  assumes "0 < x"
  shows "\<bar>fl x - x\<bar> \<le> x / 2 ^ 53"
proof -
  define u where "u = pow2 (binade x - 52)"
  have u: "0 < u" by (simp add: u_def pow2_pos)
  have "fl x = of_int (round_half_even (x / u)) * u"
    using assms by (simp add: fl_def u_def Let_def)
  then have "fl x - x = (of_int (round_half_even (x / u)) - x / u) * u"
    using u by (simp add: field_simps)
  then have "\<bar>fl x - x\<bar> = \<bar>of_int (round_half_even (x / u)) - x / u\<bar> * u"
    using u by (simp add: abs_mult)
  also have "\<dots> \<le> 1 / 2 * u"
    using u round_half_even_error [of "x / u"] by (intro mult_right_mono) simp_all
  also have "\<dots> = pow2 (binade x) / 2 ^ 53" by (simp add: u_def pow2_shift)
  also have "\<dots> \<le> x / 2 ^ 53" using binade_lower [OF assms] by (simp add: divide_right_mono)
  finally show ?thesis .
qed

lemma fl_bounds:
  assumes "0 \<le> x"
  shows "x * (1 - 1 / 9007199254740992) \<le> fl x" and "fl x \<le> x * (1 + 1 / 9007199254740992)"
proof -
  have "\<bar>fl x - x\<bar> \<le> x / 9007199254740992"
  proof (cases "x = 0")
    case True
    then show ?thesis by (simp add: fl_def)
  next
    case False
    with assms have "0 < x" by simp
    from fl_error [OF this] show ?thesis by simp
  qed
  then have "fl x - x \<le> x / 9007199254740992" and "x - fl x \<le> x / 9007199254740992"
    by linarith+
  then show "x * (1 - 1 / 9007199254740992) \<le> fl x" and "fl x \<le> x * (1 + 1 / 9007199254740992)"
    by (simp_all add: algebra_simps)
qed

lemma base_score_float_bounds:
  assumes "0 \<le> q" and "q \<le> 5"
  shows "\<bar>fl (fl (fl q / 5) * 80) - 16 * q\<bar> \<le> 320 / 9007199254740992"
    and "0 \<le> fl (fl (fl q / 5) * 80)"
proof -
  define a where "a = fl q"
  define b where "b = fl (a / 5)"
  define c where "c = fl (b * 80)"
  have a: "q * (1 - 1 / 9007199254740992) \<le> a" "a \<le> q * (1 + 1 / 9007199254740992)"
    unfolding a_def using fl_bounds [OF assms(1)] by simp_all
  with assms have a0: "0 \<le> a / 5" by simp
  have b: "a / 5 * (1 - 1 / 9007199254740992) \<le> b" "b \<le> a / 5 * (1 + 1 / 9007199254740992)"
    unfolding b_def using fl_bounds [OF a0] by simp_all
  with a0 have b0: "0 \<le> b * 80" by simp
  have c: "b * 80 * (1 - 1 / 9007199254740992) \<le> c" "c \<le> b * 80 * (1 + 1 / 9007199254740992)"
    unfolding c_def using fl_bounds [OF b0] by simp_all
  have up: "c - 16 * q \<le> 320 / 9007199254740992"
    using a(2) b(2) c(2) assms a0 b0 by (simp add: algebra_simps; linarith)
  have down: "16 * q - c \<le> 320 / 9007199254740992"
    using a(1) b(1) c(1) assms a0 b0 by (simp add: algebra_simps; linarith)
  from up down have "\<bar>c - 16 * q\<bar> \<le> 320 / 9007199254740992" by linarith
  moreover from c b0 have "0 \<le> c" by simp
  ultimately show "\<bar>fl (fl (fl q / 5) * 80) - 16 * q\<bar> \<le> 320 / 9007199254740992"
    and "0 \<le> fl (fl (fl q / 5) * 80)"
    by (simp_all add: a_def b_def c_def)
qed

lemma base_score_table:
  "py_int (fl (fl (fl (rat_of_int 0 / 16) / 5) * 80)) = 0"
  "py_int (fl (fl (fl (rat_of_int 1 / 16) / 5) * 80)) = 1"
  "py_int (fl (fl (fl (rat_of_int 2 / 16) / 5) * 80)) = 2"
  "py_int (fl (fl (fl (rat_of_int 3 / 16) / 5) * 80)) = 3"
  "py_int (fl (fl (fl (rat_of_int 4 / 16) / 5) * 80)) = 4"
  "py_int (fl (fl (fl (rat_of_int 5 / 16) / 5) * 80)) = 5"
  "py_int (fl (fl (fl (rat_of_int 6 / 16) / 5) * 80)) = 6"
  "py_int (fl (fl (fl (rat_of_int 7 / 16) / 5) * 80)) = 7"
  "py_int (fl (fl (fl (rat_of_int 8 / 16) / 5) * 80)) = 8"
  "py_int (fl (fl (fl (rat_of_int 9 / 16) / 5) * 80)) = 9"
  "py_int (fl (fl (fl (rat_of_int 10 / 16) / 5) * 80)) = 10"
  "py_int (fl (fl (fl (rat_of_int 11 / 16) / 5) * 80)) = 11"
  "py_int (fl (fl (fl (rat_of_int 12 / 16) / 5) * 80)) = 12"
  "py_int (fl (fl (fl (rat_of_int 13 / 16) / 5) * 80)) = 13"
  "py_int (fl (fl (fl (rat_of_int 14 / 16) / 5) * 80)) = 14"
  "py_int (fl (fl (fl (rat_of_int 15 / 16) / 5) * 80)) = 15"
  "py_int (fl (fl (fl (rat_of_int 16 / 16) / 5) * 80)) = 16"
  "py_int (fl (fl (fl (rat_of_int 17 / 16) / 5) * 80)) = 17"
  "py_int (fl (fl (fl (rat_of_int 18 / 16) / 5) * 80)) = 18"
  "py_int (fl (fl (fl (rat_of_int 19 / 16) / 5) * 80)) = 19"
  "py_int (fl (fl (fl (rat_of_int 20 / 16) / 5) * 80)) = 20"
  "py_int (fl (fl (fl (rat_of_int 21 / 16) / 5) * 80)) = 21"
  "py_int (fl (fl (fl (rat_of_int 22 / 16) / 5) * 80)) = 22"
  "py_int (fl (fl (fl (rat_of_int 23 / 16) / 5) * 80)) = 23"
  "py_int (fl (fl (fl (rat_of_int 24 / 16) / 5) * 80)) = 24"
  "py_int (fl (fl (fl (rat_of_int 25 / 16) / 5) * 80)) = 25"
  "py_int (fl (fl (fl (rat_of_int 26 / 16) / 5) * 80)) = 26"
  "py_int (fl (fl (fl (rat_of_int 27 / 16) / 5) * 80)) = 27"
  "py_int (fl (fl (fl (rat_of_int 28 / 16) / 5) * 80)) = 28"
  "py_int (fl (fl (fl (rat_of_int 29 / 16) / 5) * 80)) = 29"
  "py_int (fl (fl (fl (rat_of_int 30 / 16) / 5) * 80)) = 30"
  "py_int (fl (fl (fl (rat_of_int 31 / 16) / 5) * 80)) = 31"
  "py_int (fl (fl (fl (rat_of_int 32 / 16) / 5) * 80)) = 32"
  "py_int (fl (fl (fl (rat_of_int 33 / 16) / 5) * 80)) = 33"
  "py_int (fl (fl (fl (rat_of_int 34 / 16) / 5) * 80)) = 34"
  "py_int (fl (fl (fl (rat_of_int 35 / 16) / 5) * 80)) = 35"
  "py_int (fl (fl (fl (rat_of_int 36 / 16) / 5) * 80)) = 36"
  "py_int (fl (fl (fl (rat_of_int 37 / 16) / 5) * 80)) = 37"
  "py_int (fl (fl (fl (rat_of_int 38 / 16) / 5) * 80)) = 38"
  "py_int (fl (fl (fl (rat_of_int 39 / 16) / 5) * 80)) = 39"
  "py_int (fl (fl (fl (rat_of_int 40 / 16) / 5) * 80)) = 40"
  "py_int (fl (fl (fl (rat_of_int 41 / 16) / 5) * 80)) = 41"
  "py_int (fl (fl (fl (rat_of_int 42 / 16) / 5) * 80)) = 42"
  "py_int (fl (fl (fl (rat_of_int 43 / 16) / 5) * 80)) = 43"
  "py_int (fl (fl (fl (rat_of_int 44 / 16) / 5) * 80)) = 44"
  "py_int (fl (fl (fl (rat_of_int 45 / 16) / 5) * 80)) = 45"
  "py_int (fl (fl (fl (rat_of_int 46 / 16) / 5) * 80)) = 46"
  "py_int (fl (fl (fl (rat_of_int 47 / 16) / 5) * 80)) = 47"
  "py_int (fl (fl (fl (rat_of_int 48 / 16) / 5) * 80)) = 48"
  "py_int (fl (fl (fl (rat_of_int 49 / 16) / 5) * 80)) = 49"
  "py_int (fl (fl (fl (rat_of_int 50 / 16) / 5) * 80)) = 50"
  "py_int (fl (fl (fl (rat_of_int 51 / 16) / 5) * 80)) = 51"
  "py_int (fl (fl (fl (rat_of_int 52 / 16) / 5) * 80)) = 52"
  "py_int (fl (fl (fl (rat_of_int 53 / 16) / 5) * 80)) = 53"
  "py_int (fl (fl (fl (rat_of_int 54 / 16) / 5) * 80)) = 54"
  "py_int (fl (fl (fl (rat_of_int 55 / 16) / 5) * 80)) = 55"
  "py_int (fl (fl (fl (rat_of_int 56 / 16) / 5) * 80)) = 56"
  "py_int (fl (fl (fl (rat_of_int 57 / 16) / 5) * 80)) = 57"
  "py_int (fl (fl (fl (rat_of_int 58 / 16) / 5) * 80)) = 58"
  "py_int (fl (fl (fl (rat_of_int 59 / 16) / 5) * 80)) = 59"
  "py_int (fl (fl (fl (rat_of_int 60 / 16) / 5) * 80)) = 60"
  "py_int (fl (fl (fl (rat_of_int 61 / 16) / 5) * 80)) = 61"
  "py_int (fl (fl (fl (rat_of_int 62 / 16) / 5) * 80)) = 62"
  "py_int (fl (fl (fl (rat_of_int 63 / 16) / 5) * 80)) = 63"
  "py_int (fl (fl (fl (rat_of_int 64 / 16) / 5) * 80)) = 64"
  "py_int (fl (fl (fl (rat_of_int 65 / 16) / 5) * 80)) = 65"
  "py_int (fl (fl (fl (rat_of_int 66 / 16) / 5) * 80)) = 66"
  "py_int (fl (fl (fl (rat_of_int 67 / 16) / 5) * 80)) = 67"
  "py_int (fl (fl (fl (rat_of_int 68 / 16) / 5) * 80)) = 68"
  "py_int (fl (fl (fl (rat_of_int 69 / 16) / 5) * 80)) = 69"
  "py_int (fl (fl (fl (rat_of_int 70 / 16) / 5) * 80)) = 70"
  "py_int (fl (fl (fl (rat_of_int 71 / 16) / 5) * 80)) = 71"
  "py_int (fl (fl (fl (rat_of_int 72 / 16) / 5) * 80)) = 72"
  "py_int (fl (fl (fl (rat_of_int 73 / 16) / 5) * 80)) = 73"
  "py_int (fl (fl (fl (rat_of_int 74 / 16) / 5) * 80)) = 74"
  "py_int (fl (fl (fl (rat_of_int 75 / 16) / 5) * 80)) = 75"
  "py_int (fl (fl (fl (rat_of_int 76 / 16) / 5) * 80)) = 76"
  "py_int (fl (fl (fl (rat_of_int 77 / 16) / 5) * 80)) = 77"
  "py_int (fl (fl (fl (rat_of_int 78 / 16) / 5) * 80)) = 78"
  "py_int (fl (fl (fl (rat_of_int 79 / 16) / 5) * 80)) = 79"
  "py_int (fl (fl (fl (rat_of_int 80 / 16) / 5) * 80)) = 80"
  by code_simp+

lemma base_score_sixteenths:
  assumes "0 \<le> k" and "k \<le> 80"
  shows "py_int (fl (fl (fl (rat_of_int k / 16) / 5) * 80)) = k"
proof -
  from assms have "k = 0 \<or> k = 1 \<or> k = 2 \<or> k = 3 \<or> k = 4 \<or> k = 5 \<or> k = 6 \<or> k = 7 \<or> k = 8 \<or> k = 9 \<or> k = 10 \<or> k = 11 \<or> k = 12 \<or> k = 13 \<or> k = 14 \<or> k = 15 \<or> k = 16 \<or> k = 17 \<or> k = 18 \<or> k = 19 \<or> k = 20 \<or> k = 21 \<or> k = 22 \<or> k = 23 \<or> k = 24 \<or> k = 25 \<or> k = 26 \<or> k = 27 \<or> k = 28 \<or> k = 29 \<or> k = 30 \<or> k = 31 \<or> k = 32 \<or> k = 33 \<or> k = 34 \<or> k = 35 \<or> k = 36 \<or> k = 37 \<or> k = 38 \<or> k = 39 \<or> k = 40 \<or> k = 41 \<or> k = 42 \<or> k = 43 \<or> k = 44 \<or> k = 45 \<or> k = 46 \<or> k = 47 \<or> k = 48 \<or> k = 49 \<or> k = 50 \<or> k = 51 \<or> k = 52 \<or> k = 53 \<or> k = 54 \<or> k = 55 \<or> k = 56 \<or> k = 57 \<or> k = 58 \<or> k = 59 \<or> k = 60 \<or> k = 61 \<or> k = 62 \<or> k = 63 \<or> k = 64 \<or> k = 65 \<or> k = 66 \<or> k = 67 \<or> k = 68 \<or> k = 69 \<or> k = 70 \<or> k = 71 \<or> k = 72 \<or> k = 73 \<or> k = 74 \<or> k = 75 \<or> k = 76 \<or> k = 77 \<or> k = 78 \<or> k = 79 \<or> k = 80"
    by presburger
  then show ?thesis
    by (elim disjE) (simp_all only: base_score_table)
qed

lemma base_score_exact:
  assumes "0 \<le> t" and "0 < n" and "t \<le> 5 * int n" and "n \<le> 2 ^ 44"
  shows "py_int (fl (fl (fl (rat_of_int t / rat_of_nat n) / 5) * 80))
           = \<lfloor>rat_of_int t / rat_of_nat n / 5 * 80\<rfloor>"
proof -
  define q where "q = rat_of_int t / rat_of_nat n"
  define k where "k = (16 * t) div int n"
  define r where "r = (16 * t) mod int n"
  define c where "c = fl (fl (fl q / 5) * 80)"
  have n0: "0 < rat_of_nat n" using assms(2) by simp
  have q0: "0 \<le> q" using assms(1) by (simp add: q_def)
  have q5: "q \<le> 5"
  proof -
    have "rat_of_int t \<le> rat_of_int (5 * int n)" using assms(3) by (simp only: of_int_le_iff)
    then show ?thesis using n0 by (simp add: q_def field_simps)
  qed
  have sixteen: "q / 5 * 80 = rat_of_int (16 * t) / rat_of_int (int n)"
    by (simp add: q_def)
  have fl_k: "\<lfloor>q / 5 * 80\<rfloor> = k"
    unfolding sixteen k_def by (rule floor_divide_of_int_eq)
  have split: "16 * t = k * int n + r"
    by (simp add: k_def r_def)
  have r_bounds: "0 \<le> r" "r < int n"
    using assms(2) by (simp_all add: r_def)
  have q16: "16 * q = rat_of_int k + rat_of_int r / rat_of_nat n"
  proof -
    have "rat_of_int (16 * t) = rat_of_int (k * int n + r)" using split by simp
    then show ?thesis using n0 by (simp add: q_def field_simps)
  qed
  have k0: "0 \<le> k" using assms(1,2) by (simp add: k_def pos_imp_zdiv_nonneg_iff)
  have "py_int c = k"
  proof (cases "r = 0")
    case True
    with q16 have qk: "q = rat_of_int k / 16" by simp
    have "rat_of_int k \<le> 80" using q5 qk by simp
    then have "k \<le> 80" by linarith
    with k0 show ?thesis unfolding c_def qk by (rule base_score_sixteenths)
  next
    case False
    with r_bounds have r1: "1 \<le> r" "r \<le> int n - 1" by simp_all
    have inv_n: "1 / 17592186044416 \<le> 1 / rat_of_nat n"
    proof -
      have "rat_of_nat n \<le> rat_of_nat (2 ^ 44)" using assms(4) by (simp only: of_nat_le_iff)
      then have "rat_of_nat n \<le> 17592186044416" by simp
      with n0 show ?thesis by (simp add: field_simps)
    qed
    have lo: "1 / rat_of_nat n \<le> rat_of_int r / rat_of_nat n"
      using r1(1) n0 by (simp add: divide_right_mono)
    have hi: "rat_of_int r / rat_of_nat n \<le> 1 - 1 / rat_of_nat n"
    proof -
      have "rat_of_int r \<le> rat_of_int (int n - 1)" using r1(2) by (simp only: of_int_le_iff)
      then show ?thesis using n0 by (simp add: field_simps)
    qed
    from base_score_float_bounds [OF q0 q5]
    have cb: "\<bar>c - 16 * q\<bar> \<le> 320 / 9007199254740992" and c0: "0 \<le> c"
      by (simp_all add: c_def)
    from cb q16 lo hi inv_n have "rat_of_int k < c" "c < rat_of_int k + 1" by linarith+
    then have "\<lfloor>c\<rfloor> = k" by linarith
    with c0 show ?thesis by (simp add: py_int_def)
  qed
  with fl_k show ?thesis by (simp add: c_def q_def)
qed

section \<open>Facts about the example databases\<close>

lemma acme_db_eq:
  "acme_db = \<lparr>deals = [''d1'' \<mapsto>
       \<lparr>row_deal_id = ''d1'', row_company = ''AcmeCo'', row_sector = ''SaaS'',
        row_raise_amount = 5000000, row_valuation = 25000000, row_stage = ''awareness'',
        row_lead_investor = None, row_co_investors = [], row_score = 0, row_notes = [],
        row_assigned_to = None, row_website = [], row_founder = [], row_contact_email = [],
        row_created_at = ''2025-01-01T09:00:00'', row_updated_at = ''2025-01-01T09:00:00''\<rparr>],
     due_diligence = [], stage_changes = [], interactions = []\<rparr>"
  by (simp add: acme_db_def add_deal_def empty_db_def)

lemma acme_db_deal: "deals acme_db ''d1'' = Some acme_row"
  by (simp add: acme_db_eq acme_row_def)

lemma acme_deal_returned:
  "fst (add_deal empty_db ''d1'' ''2025-01-01T09:00:00'' ''2025-01-01T09:00:00''
          ''AcmeCo'' ''SaaS'' 5000000 25000000 None None [] [] [] []) = Inr acme_deal"
  by (simp add: add_deal_def empty_db_def acme_deal_def)

lemma reachable_acme_db: "reachable acme_db"
  unfolding acme_db_def by (rule reach_add_deal) (rule reach_init)

lemma scenario_b_db_eq:
  "scenario_b_db = acme_db\<lparr>due_diligence :=
     [\<lparr>ddr_dd_id = ''r1'', ddr_deal_id = ''d1'', ddr_category = ''technical'',
       ddr_status = ''complete'', ddr_findings = [''Good tech''], ddr_red_flags = [],
       ddr_rating = 4, ddr_reviewer = ''CTO'', ddr_notes = [],
       ddr_created_at = ''2025-01-02T09:00:00'', ddr_updated_at = ''2025-01-02T09:00:00''\<rparr>,
      \<lparr>ddr_dd_id = ''r2'', ddr_deal_id = ''d1'', ddr_category = ''market'',
       ddr_status = ''complete'', ddr_findings = [''Large TAM''], ddr_red_flags = [],
       ddr_rating = 5, ddr_reviewer = ''VP'', ddr_notes = [],
       ddr_created_at = ''2025-01-03T09:00:00'', ddr_updated_at = ''2025-01-03T09:00:00''\<rparr>]\<rparr>"
  by (simp add: scenario_b_db_def add_due_diligence_def acme_db_eq)

lemma scenario_b_db_deal: "deals scenario_b_db ''d1'' = Some acme_row"
  by (simp add: scenario_b_db_eq acme_db_eq acme_row_def)

lemma reachable_scenario_b_db: "reachable scenario_b_db"
  unfolding scenario_b_db_def
  by (intro reach_add_due_diligence reachable_acme_db)

text \<open>
  \<^verbatim>\<open>ORDER BY date DESC\<close>: the latest interaction comes first, and the two of the same
  date follow in the order they were logged.
\<close>

lemma get_deal_details_interaction_order:
  "map_sum id (\<lambda>dt. map i_interaction_id (dt_interactions dt))
     (get_deal_details interactions_db ''d1'') = Inr [''i3'', ''i1'', ''i2'']"
  by (simp add: interactions_db_def log_interaction_def get_deal_details_def acme_db_eq Let_def)

section \<open>Creating a deal\<close>

text \<open>
  Claim C1, as stated, fails: \<^verbatim>\<open>add_deal\<close> with an empty company name raises nothing,
  returns the Deal and writes its row.
\<close>

theorem add_deal_accepts_empty_company:
  "fst (add_deal empty_db ''d1'' ''t0'' ''t0'' '''' ''SaaS'' 5000000 25000000 None None '''' '''' '''' '''')
     = Inr \<lparr>company = '''', sector = ''SaaS'', raise_amount = 5000000, valuation = 25000000,
            stage = AWARENESS, lead_investor = None, co_investors = [], score = 0,
            deal_notes = '''', assigned_to = None, deal_id = ''d1'', created_at = ''t0'',
            updated_at = ''t0'', website = '''', founder = '''', contact_email = ''''\<rparr>
   \<and> map_option row_company
        (deals (snd (add_deal empty_db ''d1'' ''t0'' ''t0'' '''' ''SaaS'' 5000000 25000000
                       None None '''' '''' '''' '''')) ''d1'') = Some ''''"
  by (simp add: add_deal_def empty_db_def)

lemma fl_small_examples:
  "fl (- 1) = - 1" "fl (- 2) = - 2" "fl (1 / 3) = 6004799503160661 / 18014398509481984"
  by code_simp+

lemma fl_amount_examples: "fl 5000000 = 5000000" "fl 25000000 = 25000000"
proof -
  have "floorlog 2 5000000 = 23" "floorlog 2 25000000 = 25"
    by (simp_all add: compute_floorlog)
  then show "fl 5000000 = 5000000" "fl 25000000 = 25000000"
    by (simp_all add: fl_def binade_def pow2_def round_half_even_def Let_def)
qed

lemma finite_float_examples:
  "finite_float 0" "finite_float 5000000" "finite_float 25000000"
  "finite_float (- 1)" "finite_float (- 2)" "\<not> finite_float (1 / 3)"
  by (simp_all add: finite_float_def pow2_def fl_small_examples fl_amount_examples)

text \<open>
  Claim C1, amended: \<^verbatim>\<open>add_deal\<close> validates nothing.  For every company and sector,
  the empty string included, and every raise amount and valuation that is a finite float,
  negative ones included, when the generated id is not yet a key of \<^verbatim>\<open>deals\<close>, the call
  returns a new Deal with stage awareness and score 0 carrying the arguments as given, and
  writes exactly that deal's row, leaving every other row and table as it was.
\<close>

theorem add_deal_no_validation:
  assumes "deals d uuid = None" and "finite_float r" and "finite_float v"
  shows "\<exists>deal d'. add_deal d uuid now1 now2 c s r v lead asg nts fnd eml web = (Inr deal, d')
          \<and> stage deal = AWARENESS \<and> score deal = 0 \<and> deal_id deal = uuid
          \<and> company deal = c \<and> sector deal = s \<and> raise_amount deal = r \<and> valuation deal = v
          \<and> (\<exists>row. deals d' uuid = Some row \<and> row_stage row = ''awareness'' \<and> row_score row = 0
                \<and> row_company row = c \<and> row_sector row = s
                \<and> row_raise_amount row = r \<and> row_valuation row = v)
          \<and> (\<forall>k. k \<noteq> uuid \<longrightarrow> deals d' k = deals d k)
          \<and> due_diligence d' = due_diligence d \<and> stage_changes d' = stage_changes d
          \<and> interactions d' = interactions d"
  using assms by (simp add: add_deal_def)

theorem add_deal_no_validation_witness:
  "deals empty_db ''d1'' = None \<and> finite_float (- 1) \<and> finite_float (- 2) \<and>
   (\<exists>deal d'. add_deal empty_db ''d1'' ''t0'' ''t1'' '''' '''' (-1) (-2) None None '''' '''' '''' ''''
        = (Inr deal, d')
      \<and> stage deal = AWARENESS \<and> score deal = 0 \<and> deal_id deal = ''d1''
      \<and> company deal = '''' \<and> sector deal = '''' \<and> raise_amount deal = -1 \<and> valuation deal = -2
      \<and> (\<exists>row. deals d' ''d1'' = Some row \<and> row_stage row = ''awareness'' \<and> row_score row = 0
                \<and> row_company row = '''' \<and> row_sector row = ''''
                \<and> row_raise_amount row = -1 \<and> row_valuation row = -2)
      \<and> (\<forall>k. k \<noteq> ''d1'' \<longrightarrow> deals d' k = deals empty_db k)
      \<and> due_diligence d' = due_diligence empty_db \<and> stage_changes d' = stage_changes empty_db
      \<and> interactions d' = interactions empty_db)"
proof -
  have h: "deals empty_db ''d1'' = None" by (simp add: empty_db_def)
  have r: "finite_float (- 1)" and v: "finite_float (- 2)" by (rule finite_float_examples)+
  show ?thesis
    using h r v add_deal_no_validation [OF h r v, of "''t0''" "''t1''" "''''" "''''" None None
        "''''" "''''" "''''" "''''"]
    by simp
qed

section \<open>Operations on a deal that does not exist\<close>

lemma deal_not_found_neq_rating: "deal_not_found did \<noteq> rating_out_of_range"
  by (simp add: deal_not_found_def rating_out_of_range_def)

text \<open>
  The five operations that look the deal up first raise the not-found \<^verbatim>\<open>ValueError\<close>
  and write nothing.
\<close>

lemma siblings_deal_not_found:
  assumes "deals d did = None"
  shows "advance_stage d uuid now did new_stage changed_by reason = (Inl (deal_not_found did), d)"
    and "pass_deal d uuid now did reason passed_by = (Inl (deal_not_found did), d)"
    and "add_due_diligence d uuid now1 now2 did cat fs rf rating reviewer nts
           = (Inl (deal_not_found did), d)"
    and "score_deal d now did = (Inl (deal_not_found did), d)"
    and "get_deal_details d did = Inl (deal_not_found did)"
  using assms
  by (simp_all add: advance_stage_def pass_deal_def add_due_diligence_def score_deal_def
      get_deal_details_def)

text \<open>
  Claim C3 at \<^verbatim>\<open>log_interaction\<close>: on a database without the deal the call does not
  raise the not-found error of its sibling operations.  The \<^verbatim>\<open>INSERT\<close> is rejected by
  the foreign key, which surfaces as \<^verbatim>\<open>sqlite3.IntegrityError\<close>.
\<close>

theorem log_interaction_missing_deal_integrity_error:
  "log_interaction empty_db ''i1'' ''2025-01-15T10:00:00'' ''2025-01-15T10:00:00''
      ''missing'' ''call'' ''Intro call'' None None
     = (Inl (IntegrityError ''FOREIGN KEY constraint failed''), empty_db)
   \<and> IntegrityError ''FOREIGN KEY constraint failed'' \<noteq> deal_not_found ''missing''"
  by (simp add: log_interaction_def empty_db_def deal_not_found_def)

text \<open>
  Claim C10: in \<^verbatim>\<open>add_due_diligence\<close> the lookup of the deal comes before the check of
  the rating.  When the deal does not exist and the rating lies outside 1..5, the call
  raises the not-found error, which is not the rating error, and the database is unchanged.
\<close>

theorem add_due_diligence_missing_deal_first:
  assumes "deals d did = None" and "\<not> (1 \<le> rating \<and> rating \<le> 5)"
  shows "add_due_diligence d uuid now1 now2 did cat fs rf rating reviewer nts
           = (Inl (deal_not_found did), d)
         \<and> deal_not_found did \<noteq> rating_out_of_range"
  using assms by (simp add: add_due_diligence_def deal_not_found_neq_rating)

theorem add_due_diligence_missing_deal_first_witness:
  "deals empty_db ''nope'' = None \<and> \<not> (1 \<le> (9::int) \<and> (9::int) \<le> 5)
   \<and> add_due_diligence empty_db ''r1'' ''t1'' ''t1'' ''nope'' (CategoryEnum LEGAL) [] None 9 [] []
        = (Inl (deal_not_found ''nope''), empty_db)
   \<and> deal_not_found ''nope'' \<noteq> rating_out_of_range"
proof -
  have h1: "deals empty_db ''nope'' = None" by (simp add: empty_db_def)
  have h2: "\<not> (1 \<le> (9::int) \<and> (9::int) \<le> 5)" by simp
  show ?thesis
    using h1 h2 add_due_diligence_missing_deal_first [OF h1 h2, of "''r1''" "''t1''" "''t1''"
        "CategoryEnum LEGAL" "[]" None "[]" "[]"]
    by simp
qed

section \<open>Stage transitions\<close>

text \<open>
  Claim C6: for an existing deal (and a change id not yet in \<^verbatim>\<open>stage_changes\<close>),
  \<^verbatim>\<open>advance_stage\<close> returns \<^verbatim>\<open>True\<close>, sets the deal's stage to the requested one and
  its \<^verbatim>\<open>updated_at\<close> to the current time, and appends exactly one stage-change row whose
  old stage is the stage the deal had and whose new stage is the requested one, so that
  \<^verbatim>\<open>get_deal_details\<close> afterwards shows one more stage change and the new stage.  The
  requested stage is arbitrary: an enum member or any string, with no check against the
  old stage.
\<close>

theorem advance_stage_any_stage:
  assumes "deals d did = Some row"
    and "uuid \<notin> set (map sc_change_id (stage_changes d))"
  shows "advance_stage d uuid now did new_stage changed_by reason =
           (Inr True,
            d\<lparr>deals := (deals d)(did \<mapsto> row\<lparr>row_stage := stage_text new_stage, row_updated_at := now\<rparr>),
              stage_changes := stage_changes d @
                [\<lparr>sc_change_id = uuid, sc_deal_id = did, sc_old_stage = row_stage row,
                  sc_new_stage = stage_text new_stage, sc_changed_by = changed_by,
                  sc_reason = reason, sc_changed_at = now\<rparr>]\<rparr>)
         \<and> length (stage_changes (snd (advance_stage d uuid now did new_stage changed_by reason)))
             = Suc (length (stage_changes d))
         \<and> length (filter (\<lambda>e. sc_deal_id e = did)
               (stage_changes (snd (advance_stage d uuid now did new_stage changed_by reason))))
             = Suc (length (filter (\<lambda>e. sc_deal_id e = did) (stage_changes d)))
         \<and> (\<exists>before after.
               get_deal_details d did = Inr before
             \<and> get_deal_details (snd (advance_stage d uuid now did new_stage changed_by reason)) did
                 = Inr after
             \<and> length (dt_stage_history after) = Suc (length (dt_stage_history before))
             \<and> row_stage (dt_deal after) = stage_text new_stage)"
  using assms by (simp add: advance_stage_def get_deal_details_def Let_def)

lemma closing_db_eq:
  "closing_db = acme_db\<lparr>deals := [''d1'' \<mapsto>
       \<lparr>row_deal_id = ''d1'', row_company = ''AcmeCo'', row_sector = ''SaaS'',
        row_raise_amount = 5000000, row_valuation = 25000000, row_stage = ''closing'',
        row_lead_investor = None, row_co_investors = [], row_score = 0, row_notes = [],
        row_assigned_to = None, row_website = [], row_founder = [], row_contact_email = [],
        row_created_at = ''2025-01-01T09:00:00'', row_updated_at = ''2025-01-05T09:00:00''\<rparr>],
     stage_changes := [\<lparr>sc_change_id = ''c1'', sc_deal_id = ''d1'', sc_old_stage = ''awareness'',
        sc_new_stage = ''closing'', sc_changed_by = ''analyst'', sc_reason = ''fast track'',
        sc_changed_at = ''2025-01-05T09:00:00''\<rparr>]\<rparr>"
  by (simp add: closing_db_def advance_stage_def acme_db_eq Let_def)

theorem advance_stage_any_stage_witness:
  "deals closing_db ''d1'' = Some
       \<lparr>row_deal_id = ''d1'', row_company = ''AcmeCo'', row_sector = ''SaaS'',
        row_raise_amount = 5000000, row_valuation = 25000000, row_stage = ''closing'',
        row_lead_investor = None, row_co_investors = [], row_score = 0, row_notes = [],
        row_assigned_to = None, row_website = [], row_founder = [], row_contact_email = [],
        row_created_at = ''2025-01-01T09:00:00'', row_updated_at = ''2025-01-05T09:00:00''\<rparr>
   \<and> ''c2'' \<notin> set (map sc_change_id (stage_changes closing_db))
   \<and> fst (advance_stage closing_db ''c2'' ''2025-01-06T09:00:00'' ''d1'' (StageEnum AWARENESS)
            ''analyst'' ''back to start'') = Inr True
   \<and> map_option row_stage
        (deals (snd (advance_stage closing_db ''c2'' ''2025-01-06T09:00:00'' ''d1''
                       (StageEnum AWARENESS) ''analyst'' ''back to start'')) ''d1'')
       = Some ''awareness''
   \<and> stage_changes (snd (advance_stage closing_db ''c2'' ''2025-01-06T09:00:00'' ''d1''
                       (StageEnum AWARENESS) ''analyst'' ''back to start''))
       = stage_changes closing_db @
           [\<lparr>sc_change_id = ''c2'', sc_deal_id = ''d1'', sc_old_stage = ''closing'',
             sc_new_stage = ''awareness'', sc_changed_by = ''analyst'',
             sc_reason = ''back to start'', sc_changed_at = ''2025-01-06T09:00:00''\<rparr>]"
proof -
  have h1: "deals closing_db ''d1'' = Some
       \<lparr>row_deal_id = ''d1'', row_company = ''AcmeCo'', row_sector = ''SaaS'',
        row_raise_amount = 5000000, row_valuation = 25000000, row_stage = ''closing'',
        row_lead_investor = None, row_co_investors = [], row_score = 0, row_notes = [],
        row_assigned_to = None, row_website = [], row_founder = [], row_contact_email = [],
        row_created_at = ''2025-01-01T09:00:00'', row_updated_at = ''2025-01-05T09:00:00''\<rparr>"
    by (simp add: closing_db_eq)
  have h2: "''c2'' \<notin> set (map sc_change_id (stage_changes closing_db))"
    by (simp add: closing_db_eq)
  show ?thesis
    using h1 h2 advance_stage_any_stage [OF h1 h2, of "''2025-01-06T09:00:00''" "StageEnum AWARENESS"
        "''analyst''" "''back to start''"]
    by simp
qed

text \<open>
  Claim C7: for an existing deal, \<^verbatim>\<open>pass_deal\<close> sets the stage to passed, appends a
  newline and \<^verbatim>\<open>[PASSED] <reason>\<close> to the notes, so that the notes end with
  \<^verbatim>\<open>[PASSED] \<close> followed by the reason, and appends exactly one stage-change row with new
  stage passed.  A second call on the passed deal succeeds again, appends a second line to
  the notes and a second row, from passed to passed.
\<close>

theorem pass_deal_appends:
  assumes "deals d did = Some row"
    and "uuid \<notin> set (map sc_change_id (stage_changes d))"
    and "uuid2 \<notin> set (map sc_change_id (stage_changes d))" and "uuid2 \<noteq> uuid"
  shows "\<exists>d1 row1 d2 row2.
           pass_deal d uuid now did reason passed_by = (Inr True, d1)
         \<and> deals d1 did = Some row1 \<and> row_stage row1 = ''passed''
         \<and> row_notes row1 = row_notes row @ [CHR 0x0A] @ ''[PASSED] '' @ reason
         \<and> suffix (''[PASSED] '' @ reason) (row_notes row1)
         \<and> row_updated_at row1 = now
         \<and> stage_changes d1 = stage_changes d @
              [\<lparr>sc_change_id = uuid, sc_deal_id = did, sc_old_stage = row_stage row,
                sc_new_stage = ''passed'', sc_changed_by = passed_by,
                sc_reason = reason, sc_changed_at = now\<rparr>]
         \<and> pass_deal d1 uuid2 now' did reason' passed_by' = (Inr True, d2)
         \<and> deals d2 did = Some row2 \<and> row_stage row2 = ''passed''
         \<and> row_notes row2 = row_notes row1 @ [CHR 0x0A] @ ''[PASSED] '' @ reason'
         \<and> stage_changes d2 = stage_changes d1 @
              [\<lparr>sc_change_id = uuid2, sc_deal_id = did, sc_old_stage = ''passed'',
                sc_new_stage = ''passed'', sc_changed_by = passed_by',
                sc_reason = reason', sc_changed_at = now'\<rparr>]"
  using assms by (simp add: pass_deal_def suffix_def Let_def)


theorem pass_deal_appends_witness:
  "deals acme_db ''d1'' = Some acme_row
   \<and> ''c1'' \<notin> set (map sc_change_id (stage_changes acme_db))
   \<and> ''c2'' \<notin> set (map sc_change_id (stage_changes acme_db)) \<and> ''c2'' \<noteq> ''c1''
   \<and> (\<exists>d1 row1 d2 row2.
           pass_deal acme_db ''c1'' ''2025-01-07T09:00:00'' ''d1'' ''too expensive'' ''partner''
             = (Inr True, d1)
         \<and> deals d1 ''d1'' = Some row1 \<and> row_stage row1 = ''passed''
         \<and> row_notes row1 = [CHR 0x0A] @ ''[PASSED] too expensive''
         \<and> suffix ''[PASSED] too expensive'' (row_notes row1)
         \<and> row_updated_at row1 = ''2025-01-07T09:00:00''
         \<and> stage_changes d1 =
              [\<lparr>sc_change_id = ''c1'', sc_deal_id = ''d1'', sc_old_stage = ''awareness'',
                sc_new_stage = ''passed'', sc_changed_by = ''partner'',
                sc_reason = ''too expensive'', sc_changed_at = ''2025-01-07T09:00:00''\<rparr>]
         \<and> pass_deal d1 ''c2'' ''2025-01-08T09:00:00'' ''d1'' ''still no'' ''partner''
             = (Inr True, d2)
         \<and> deals d2 ''d1'' = Some row2 \<and> row_stage row2 = ''passed''
         \<and> row_notes row2 = row_notes row1 @ [CHR 0x0A] @ ''[PASSED] still no''
         \<and> stage_changes d2 = stage_changes d1 @
              [\<lparr>sc_change_id = ''c2'', sc_deal_id = ''d1'', sc_old_stage = ''passed'',
                sc_new_stage = ''passed'', sc_changed_by = ''partner'',
                sc_reason = ''still no'', sc_changed_at = ''2025-01-08T09:00:00''\<rparr>])"
proof -
  have h1: "deals acme_db ''d1'' = Some acme_row"
    by (simp add: acme_db_eq acme_row_def)
  have h2: "''c1'' \<notin> set (map sc_change_id (stage_changes acme_db))"
    by (simp add: acme_db_eq)
  have h3: "''c2'' \<notin> set (map sc_change_id (stage_changes acme_db))"
    by (simp add: acme_db_eq)
  have h4: "''c2'' \<noteq> ''c1''" by simp
  have e: "stage_changes acme_db = []" by (simp add: acme_db_eq)
  show ?thesis
    using h1 h2 h3 h4 pass_deal_appends [OF h1 h2 h3 h4, of "''2025-01-07T09:00:00''"
        "''too expensive''" "''partner''" "''2025-01-08T09:00:00''" "''still no''" "''partner''"]
    by (simp add: e acme_row_def)
qed

section \<open>Adding a due-diligence report\<close>

text \<open>
  Claim C8: on an existing deal, a rating outside 1..5 makes \<^verbatim>\<open>add_due_diligence\<close>
  raise the rating \<^verbatim>\<open>ValueError\<close> and leave the database as it was.  A rating within
  1..5 (and a report id not yet in the table) appends exactly one report row, with status
  complete, leaves the deals unchanged, and returns the report with status
  \<^verbatim>\<open>COMPLETE\<close>.
\<close>

theorem add_due_diligence_rating_check:
  assumes "deals d did = Some row"
  shows "(\<not> (1 \<le> rating \<and> rating \<le> 5) \<longrightarrow>
            add_due_diligence d uuid now1 now2 did cat fs rf rating reviewer nts
              = (Inl rating_out_of_range, d))
       \<and> (1 \<le> rating \<and> rating \<le> 5 \<and> uuid \<notin> set (map ddr_dd_id (due_diligence d)) \<longrightarrow>
            add_due_diligence d uuid now1 now2 did cat fs rf rating reviewer nts
              = (Inr \<lparr>dd_deal_id = did, dd_category = cat, dd_status = COMPLETE,
                      dd_findings = fs, dd_red_flags = (case rf of None \<Rightarrow> [] | Some x \<Rightarrow> x),
                      dd_rating = rating, dd_reviewer = reviewer, dd_id = uuid,
                      dd_created_at = now1, dd_updated_at = now2, dd_notes = nts\<rparr>,
                 d\<lparr>due_diligence := due_diligence d @
                     [\<lparr>ddr_dd_id = uuid, ddr_deal_id = did, ddr_category = category_text cat,
                       ddr_status = ''complete'', ddr_findings = fs,
                       ddr_red_flags = (case rf of None \<Rightarrow> [] | Some x \<Rightarrow> x),
                       ddr_rating = rating, ddr_reviewer = reviewer, ddr_notes = nts,
                       ddr_created_at = now1, ddr_updated_at = now2\<rparr>]\<rparr>)
          \<and> length (due_diligence
                (snd (add_due_diligence d uuid now1 now2 did cat fs rf rating reviewer nts)))
              = Suc (length (due_diligence d))
          \<and> deals (snd (add_due_diligence d uuid now1 now2 did cat fs rf rating reviewer nts))
              = deals d)"
  using assms by (simp add: add_due_diligence_def Let_def)

theorem add_due_diligence_rating_check_witness:
  "deals acme_db ''d1'' = Some acme_row
   \<and> \<not> (1 \<le> (6::int) \<and> (6::int) \<le> 5)
   \<and> add_due_diligence acme_db ''r1'' ''t1'' ''t2'' ''d1'' (CategoryEnum TEAM) [''x''] None 6
         ''GP'' [] = (Inl rating_out_of_range, acme_db)
   \<and> \<not> (1 \<le> (0::int) \<and> (0::int) \<le> 5)
   \<and> add_due_diligence acme_db ''r1'' ''t1'' ''t2'' ''d1'' (CategoryEnum TEAM) [''x''] None 0
         ''GP'' [] = (Inl rating_out_of_range, acme_db)
   \<and> (1 \<le> (5::int) \<and> (5::int) \<le> 5 \<and> ''r1'' \<notin> set (map ddr_dd_id (due_diligence acme_db)))
   \<and> add_due_diligence acme_db ''r1'' ''t1'' ''t2'' ''d1'' (CategoryEnum TEAM) [''x''] None 5
         ''GP'' []
       = (Inr \<lparr>dd_deal_id = ''d1'', dd_category = CategoryEnum TEAM, dd_status = COMPLETE,
               dd_findings = [''x''], dd_red_flags = [], dd_rating = 5, dd_reviewer = ''GP'',
               dd_id = ''r1'', dd_created_at = ''t1'', dd_updated_at = ''t2'', dd_notes = []\<rparr>,
          acme_db\<lparr>due_diligence :=
              [\<lparr>ddr_dd_id = ''r1'', ddr_deal_id = ''d1'', ddr_category = ''team'',
                ddr_status = ''complete'', ddr_findings = [''x''], ddr_red_flags = [],
                ddr_rating = 5, ddr_reviewer = ''GP'', ddr_notes = [],
                ddr_created_at = ''t1'', ddr_updated_at = ''t2''\<rparr>]\<rparr>)"
proof -
  have h1: "deals acme_db ''d1'' = Some acme_row"
    by (simp add: acme_db_eq acme_row_def)
  have e: "due_diligence acme_db = []" by (simp add: acme_db_eq)
  show ?thesis
    using h1 e
      add_due_diligence_rating_check [OF h1, of 6 "''r1''" "''t1''" "''t2''" "CategoryEnum TEAM"
        "[''x'']" None "''GP''" "[]"]
      add_due_diligence_rating_check [OF h1, of 0 "''r1''" "''t1''" "''t2''" "CategoryEnum TEAM"
        "[''x'']" None "''GP''" "[]"]
      add_due_diligence_rating_check [OF h1, of 5 "''r1''" "''t1''" "''t2''" "CategoryEnum TEAM"
        "[''x'']" None "''GP''" "[]"]
    by simp
qed

section \<open>The scoring formula and the float arithmetic\<close>

lemma py_int_nonneg: "0 \<le> x \<Longrightarrow> py_int x = \<lfloor>x\<rfloor>"
  by (simp add: py_int_def)

lemma sum_list_filter_if:
  "sum_list (map f (filter P xs)) = (\<Sum>r\<leftarrow>xs. if P r then f r else (0::int))"
  by (induction xs) simp_all

lemma sum_positive_nonneg: "0 \<le> (\<Sum>r\<leftarrow>xs. if 0 < f r then f r else (0::int))"
  by (induction xs) simp_all

lemma sum_positive_le:
  "\<forall>r \<in> set xs. f r \<le> (5::int) \<Longrightarrow>
   (\<Sum>r\<leftarrow>xs. if 0 < f r then f r else 0) \<le> 5 * int (length xs)"
  by (induction xs) auto

lemma clamp_max_min: "clamp x 0 100 = max 0 (min 100 x)"
  by (simp add: clamp_def)

lemma clamp_range: "0 \<le> clamp x 0 100 \<and> clamp x 0 100 \<le> 100"
  by (simp add: clamp_def)

lemma spec_score_range: "0 \<le> spec_score items \<and> spec_score items \<le> 100"
  by (simp add: spec_score_def clamp_range)

text \<open>
  The three float operations do not change the base score: for ratings of at most 5 and
  at most \<open>2 ^ 44\<close> reports the truncated float equals the floor of the exact value.
\<close>

lemma base_score_is_spec:
  assumes "items \<noteq> []" and "\<forall>r \<in> set items. ddr_rating r \<le> 5" and "length items \<le> 2 ^ 44"
  shows "py_int (fl (fl (fl (rat_of_int (sum_list (map ddr_rating
             (filter (\<lambda>r. 0 < ddr_rating r) items))) / rat_of_nat (length items)) / 5) * 80))
         = spec_base_score items"
proof -
  define t where "t = (\<Sum>r\<leftarrow>items. if 0 < ddr_rating r then ddr_rating r else 0)"
  have t: "sum_list (map ddr_rating (filter (\<lambda>r. 0 < ddr_rating r) items)) = t"
    by (simp add: t_def sum_list_filter_if)
  have t0: "0 \<le> t" unfolding t_def by (rule sum_positive_nonneg)
  have t5: "t \<le> 5 * int (length items)" unfolding t_def using assms(2) by (rule sum_positive_le)
  have n0: "0 < length items" using assms(1) by simp
  have "py_int (fl (fl (fl (rat_of_int t / rat_of_nat (length items)) / 5) * 80))
          = \<lfloor>rat_of_int t / rat_of_nat (length items) / 5 * 80\<rfloor>"
    using t0 n0 t5 assms(3) by (rule base_score_exact)
  then show ?thesis
    unfolding t by (simp add: spec_base_score_def spec_avg_rating_def t_def)
qed

lemma score_deal_with_reports:
  assumes "deals d did = Some row" and "reports_of d did \<noteq> []"
    and "\<forall>r \<in> set (reports_of d did). ddr_rating r \<le> 5"
    and "length (reports_of d did) \<le> 2 ^ 44"
  shows "score_deal d now did =
           (Inr (spec_score (reports_of d did)),
            d\<lparr>deals := (deals d)(did \<mapsto>
                 row\<lparr>row_score := spec_score (reports_of d did), row_updated_at := now\<rparr>)\<rparr>)"
proof -
  let ?items = "reports_of d did"
  let ?base = "py_int (fl (fl (fl (rat_of_int (sum_list (map ddr_rating
             (filter (\<lambda>r. 0 < ddr_rating r) ?items))) / rat_of_nat (length ?items)) / 5) * 80))"
  let ?score = "max 0 (min 100 (?base
                - min ((\<Sum>r\<leftarrow>?items. int (length (ddr_red_flags r))) * 5) 30
                + min (int (card (set (map ddr_category ?items))) * 4) 20))"
  have base: "?base = spec_base_score ?items"
    using assms(2-4) by (rule base_score_is_spec)
  have cats: "int (card (set (map ddr_category ?items)))
                = int (length (remdups (map ddr_category ?items)))"
    by (simp only: card_set)
  have sc: "?score = spec_score ?items"
    unfolding base cats
    by (simp add: spec_score_def clamp_max_min spec_penalty_def spec_coverage_bonus_def)
  have "score_deal d now did =
          (Inr ?score,
           d\<lparr>deals := (deals d)(did \<mapsto> row\<lparr>row_score := ?score, row_updated_at := now\<rparr>)\<rparr>)"
    using assms(1,2) unfolding score_deal_def reports_of_def Let_def by simp
  then show ?thesis unfolding sc .
qed

lemma scenario_b_reports:
  "reports_of scenario_b_db ''d1'' =
     [\<lparr>ddr_dd_id = ''r1'', ddr_deal_id = ''d1'', ddr_category = ''technical'',
       ddr_status = ''complete'', ddr_findings = [''Good tech''], ddr_red_flags = [],
       ddr_rating = 4, ddr_reviewer = ''CTO'', ddr_notes = [],
       ddr_created_at = ''2025-01-02T09:00:00'', ddr_updated_at = ''2025-01-02T09:00:00''\<rparr>,
      \<lparr>ddr_dd_id = ''r2'', ddr_deal_id = ''d1'', ddr_category = ''market'',
       ddr_status = ''complete'', ddr_findings = [''Large TAM''], ddr_red_flags = [],
       ddr_rating = 5, ddr_reviewer = ''VP'', ddr_notes = [],
       ddr_created_at = ''2025-01-03T09:00:00'', ddr_updated_at = ''2025-01-03T09:00:00''\<rparr>]"
  by (simp add: reports_of_def scenario_b_db_eq)

lemma scenario_b_parts:
  "spec_avg_rating (reports_of scenario_b_db ''d1'') = 9 / 2"
  "spec_base_score (reports_of scenario_b_db ''d1'') = 72"
  "spec_penalty (reports_of scenario_b_db ''d1'') = 0"
  "spec_coverage_bonus (reports_of scenario_b_db ''d1'') = 8"
  "spec_score (reports_of scenario_b_db ''d1'') = 80"
proof -
  show a: "spec_avg_rating (reports_of scenario_b_db ''d1'') = 9 / 2"
    by (simp add: scenario_b_reports spec_avg_rating_def)
  show b: "spec_base_score (reports_of scenario_b_db ''d1'') = 72"
    by (simp add: spec_base_score_def a)
  show p: "spec_penalty (reports_of scenario_b_db ''d1'') = 0"
    by (simp add: scenario_b_reports spec_penalty_def)
  show c: "spec_coverage_bonus (reports_of scenario_b_db ''d1'') = 8"
    by (simp add: scenario_b_reports spec_coverage_bonus_def)
  show "spec_score (reports_of scenario_b_db ''d1'') = 80"
    by (simp add: spec_score_def b p c clamp_def)
qed

lemma scenario_b_side:
  "reports_of scenario_b_db ''d1'' \<noteq> []"
  "\<forall>r \<in> set (reports_of scenario_b_db ''d1''). ddr_rating r \<le> 5"
  "length (reports_of scenario_b_db ''d1'') \<le> 2 ^ 44"
  by (simp_all add: scenario_b_reports)

lemma scenario_b_scored:
  "score_deal scenario_b_db now ''d1'' =
     (Inr 80,
      scenario_b_db\<lparr>deals := (deals scenario_b_db)(''d1'' \<mapsto>
           acme_row\<lparr>row_score := 80, row_updated_at := now\<rparr>)\<rparr>)"
  using score_deal_with_reports [OF scenario_b_db_deal scenario_b_side, of now]
  by (simp only: scenario_b_parts)

section \<open>Invariants of the databases built by the operations\<close>

lemma score_deal_cases:
  "deals d did = None \<and> score_deal d now did = (Inl (deal_not_found did), d)
   \<or> (\<exists>row. deals d did = Some row \<and> reports_of d did = [] \<and> score_deal d now did = (Inr 0, d))
   \<or> (\<exists>row sc. deals d did = Some row \<and> reports_of d did \<noteq> [] \<and> 0 \<le> sc \<and> sc \<le> 100 \<and>
        score_deal d now did =
           (Inr sc, d\<lparr>deals := (deals d)(did \<mapsto> row\<lparr>row_score := sc, row_updated_at := now\<rparr>)\<rparr>))"
proof (cases "deals d did")
  case None
  then show ?thesis by (simp add: score_deal_def)
next
  case (Some row)
  show ?thesis
  proof (cases "reports_of d did = []")
    case True
    with Some show ?thesis by (simp add: score_deal_def reports_of_def)
  next
    case False
    let ?items = "reports_of d did"
    let ?score = "max 0 (min 100 (py_int (fl (fl (fl (rat_of_int (sum_list (map ddr_rating
             (filter (\<lambda>r. 0 < ddr_rating r) ?items))) / rat_of_nat (length ?items)) / 5) * 80))
                - min ((\<Sum>r\<leftarrow>?items. int (length (ddr_red_flags r))) * 5) 30
                + min (int (card (set (map ddr_category ?items))) * 4) 20))"
    have "score_deal d now did =
          (Inr ?score,
           d\<lparr>deals := (deals d)(did \<mapsto> row\<lparr>row_score := ?score, row_updated_at := now\<rparr>)\<rparr>)"
      using Some False unfolding score_deal_def reports_of_def Let_def by simp
    moreover have "0 \<le> ?score \<and> ?score \<le> 100" by simp
    ultimately show ?thesis using Some False by blast
  qed
qed

lemma score_deal_returns_in_range:
  assumes "score_deal d now did = (Inr sc, d')"
  shows "0 \<le> sc \<and> sc \<le> 100"
  using score_deal_cases [of d did now] assms by auto

lemma add_deal_scores:
  "scores_in_range d \<Longrightarrow>
   scores_in_range (snd (add_deal d uuid now1 now2 c s r v lead asg nts fnd eml web))"
  by (auto simp: scores_in_range_def add_deal_def Let_def split: if_splits)

lemma advance_stage_scores:
  "map_option row_score (deals (snd (advance_stage d uuid now did new_stage changed_by reason)) k)
     = map_option row_score (deals d k)"
  by (auto simp: advance_stage_def Let_def split: option.splits)

lemma pass_deal_scores:
  "map_option row_score (deals (snd (pass_deal d uuid now did reason passed_by)) k)
     = map_option row_score (deals d k)"
  by (auto simp: pass_deal_def Let_def split: option.splits)

lemma add_due_diligence_deals:
  "deals (snd (add_due_diligence d uuid now1 now2 did cat fs rf rating reviewer nts)) = deals d"
  by (auto simp: add_due_diligence_def Let_def split: option.splits)

lemma log_interaction_deals:
  "deals (snd (log_interaction d uuid now1 now2 did ty descr ps dt)) = deals d"
  by (auto simp: log_interaction_def Let_def split: option.splits)

lemma scores_in_range_cong:
  assumes "scores_in_range d"
    and "\<And>k. map_option row_score (deals d' k) = map_option row_score (deals d k)"
  shows "scores_in_range d'"
  unfolding scores_in_range_def
proof (intro allI impI)
  fix k row assume a: "deals d' k = Some row"
  with assms(2) [of k] obtain row0 where r0: "deals d k = Some row0" "row_score row0 = row_score row"
    by (cases "deals d k") auto
  from assms(1) r0(1) have "0 \<le> row_score row0 \<and> row_score row0 \<le> 100"
    unfolding scores_in_range_def by blast
  with r0(2) show "0 \<le> row_score row \<and> row_score row \<le> 100"
    by simp
qed

lemma score_deal_scores:
  assumes "scores_in_range d"
  shows "scores_in_range (snd (score_deal d now did))"
  using score_deal_cases [of d did now] assms
  by (auto simp: scores_in_range_def split: if_splits)

lemma reachable_scores_in_range: "reachable d \<Longrightarrow> scores_in_range d"
proof (induction rule: reachable.induct)
  case reach_init
  show ?case by (simp add: scores_in_range_def empty_db_def)
next
  case (reach_add_deal d uuid now1 now2 c s r v lead asg nts fnd eml web)
  from reach_add_deal.IH show ?case by (simp add: add_deal_scores)
next
  case (reach_advance_stage d uuid now did new_stage changed_by reason)
  from reach_advance_stage.IH show ?case by (rule scores_in_range_cong) (rule advance_stage_scores)
next
  case (reach_add_due_diligence d uuid now1 now2 did cat fs rf rating reviewer nts)
  from reach_add_due_diligence.IH show ?case
    by (rule scores_in_range_cong) (simp add: add_due_diligence_deals)
next
  case (reach_score_deal d now did)
  from reach_score_deal.IH show ?case by (rule score_deal_scores)
next
  case (reach_pass_deal d uuid now did reason passed_by)
  from reach_pass_deal.IH show ?case by (rule scores_in_range_cong) (rule pass_deal_scores)
next
  case (reach_log_interaction d uuid now1 now2 did ty descr ps dt)
  from reach_log_interaction.IH show ?case
    by (rule scores_in_range_cong) (simp add: log_interaction_deals)
qed

text \<open>A deal without reports has never been given a score other than the initial 0.\<close>

lemma add_deal_reports:
  "due_diligence (snd (add_deal d uuid now1 now2 c s r v lead asg nts fnd eml web)) = due_diligence d"
  by (simp add: add_deal_def Let_def)

lemma advance_stage_reports:
  "due_diligence (snd (advance_stage d uuid now did new_stage changed_by reason)) = due_diligence d"
  by (auto simp: advance_stage_def Let_def split: option.splits)

lemma pass_deal_reports:
  "due_diligence (snd (pass_deal d uuid now did reason passed_by)) = due_diligence d"
  by (auto simp: pass_deal_def Let_def split: option.splits)

lemma log_interaction_reports:
  "due_diligence (snd (log_interaction d uuid now1 now2 did ty descr ps dt)) = due_diligence d"
  by (auto simp: log_interaction_def Let_def split: option.splits)

lemma score_deal_reports:
  "due_diligence (snd (score_deal d now did)) = due_diligence d"
  using score_deal_cases [of d did now] by auto

lemma add_due_diligence_reports:
  "\<exists>new. due_diligence (snd (add_due_diligence d uuid now1 now2 did cat fs rf rating reviewer nts))
     = due_diligence d @ new"
  by (auto simp: add_due_diligence_def Let_def split: option.splits)

lemma unscored_zero_cong:
  assumes "unscored_zero d"
    and "\<And>k. map_option row_score (deals d' k) = map_option row_score (deals d k)"
    and "\<exists>new. due_diligence d' = due_diligence d @ new"
  shows "unscored_zero d'"
  unfolding unscored_zero_def
proof (intro allI impI)
  fix k row assume a: "deals d' k = Some row \<and> reports_of d' k = []"
  with assms(2) [of k] obtain row0 where r0: "deals d k = Some row0" "row_score row0 = row_score row"
    by (cases "deals d k") auto
  from a assms(3) have "reports_of d k = []" by (auto simp: reports_of_def)
  with r0(1) assms(1) have "row_score row0 = 0" unfolding unscored_zero_def by blast
  with r0(2) show "row_score row = 0" by simp
qed

lemma add_deal_unscored:
  "unscored_zero d \<Longrightarrow>
   unscored_zero (snd (add_deal d uuid now1 now2 c s r v lead asg nts fnd eml web))"
  by (auto simp: unscored_zero_def reports_of_def add_deal_def Let_def split: if_splits)

lemma score_deal_unscored:
  assumes "unscored_zero d"
  shows "unscored_zero (snd (score_deal d now did))"
  using score_deal_cases [of d did now] assms
  by (auto simp: unscored_zero_def reports_of_def split: if_splits)

lemma reachable_unscored_zero: "reachable d \<Longrightarrow> unscored_zero d"
proof (induction rule: reachable.induct)
  case reach_init
  show ?case by (simp add: unscored_zero_def empty_db_def)
next
  case (reach_add_deal d uuid now1 now2 c s r v lead asg nts fnd eml web)
  from reach_add_deal.IH show ?case by (simp add: add_deal_unscored)
next
  case (reach_advance_stage d uuid now did new_stage changed_by reason)
  from reach_advance_stage.IH show ?case
    by (rule unscored_zero_cong) (simp_all add: advance_stage_scores advance_stage_reports)
next
  case (reach_add_due_diligence d uuid now1 now2 did cat fs rf rating reviewer nts)
  from reach_add_due_diligence.IH show ?case
    by (rule unscored_zero_cong) (simp_all add: add_due_diligence_deals add_due_diligence_reports)
next
  case (reach_score_deal d now did)
  from reach_score_deal.IH show ?case by (rule score_deal_unscored)
next
  case (reach_pass_deal d uuid now did reason passed_by)
  from reach_pass_deal.IH show ?case
    by (rule unscored_zero_cong) (simp_all add: pass_deal_scores pass_deal_reports)
next
  case (reach_log_interaction d uuid now1 now2 did ty descr ps dt)
  from reach_log_interaction.IH show ?case
    by (rule unscored_zero_cong) (simp_all add: log_interaction_deals log_interaction_reports)
qed

text \<open>Every report written by \<^verbatim>\<open>add_due_diligence\<close> has a rating within 1..5.\<close>

lemma add_due_diligence_ratings:
  "ratings_valid d \<Longrightarrow>
   ratings_valid (snd (add_due_diligence d uuid now1 now2 did cat fs rf rating reviewer nts))"
  by (auto simp: ratings_valid_def add_due_diligence_def Let_def split: option.splits)

lemma reachable_ratings_valid: "reachable d \<Longrightarrow> ratings_valid d"
proof (induction rule: reachable.induct)
  case reach_init
  show ?case by (simp add: ratings_valid_def empty_db_def)
next
  case (reach_add_deal d uuid now1 now2 c s r v lead asg nts fnd eml web)
  from reach_add_deal.IH show ?case by (simp add: ratings_valid_def add_deal_reports)
next
  case (reach_advance_stage d uuid now did new_stage changed_by reason)
  from reach_advance_stage.IH show ?case by (simp add: ratings_valid_def advance_stage_reports)
next
  case (reach_add_due_diligence d uuid now1 now2 did cat fs rf rating reviewer nts)
  from reach_add_due_diligence.IH show ?case by (rule add_due_diligence_ratings)
next
  case (reach_score_deal d now did)
  from reach_score_deal.IH show ?case by (simp add: ratings_valid_def score_deal_reports)
next
  case (reach_pass_deal d uuid now did reason passed_by)
  from reach_pass_deal.IH show ?case by (simp add: ratings_valid_def pass_deal_reports)
next
  case (reach_log_interaction d uuid now1 now2 did ty descr ps dt)
  from reach_log_interaction.IH show ?case by (simp add: ratings_valid_def log_interaction_reports)
qed

lemma reachable_report_ratings:
  "reachable d \<Longrightarrow> \<forall>r \<in> set (reports_of d did). ddr_rating r \<le> 5"
  using reachable_ratings_valid [of d] by (auto simp: ratings_valid_def reports_of_def)

section \<open>The score of a deal with reports\<close>

text \<open>
  Claim C4: for an existing deal with at least one report, \<^verbatim>\<open>score_deal\<close> returns and
  persists \<open>clamp (base_score - penalty + coverage_bonus) 0 100\<close>, where the average
  divides the sum of the positive ratings by the number of all reports, the base score is
  the floor of average / 5 * 80, the penalty is the smaller of 5 times the number of red
  flags and 30, and the coverage bonus the smaller of 4 times the number of distinct
  categories and 20.  The float arithmetic of the code agrees with this exact formula when
  no rating exceeds 5 and the deal has at most \<open>2 ^ 44\<close> reports.  In Scenario B (ratings
  4 and 5, no red flags, categories technical and market) the average is 4.5, the base
  score 72, the penalty 0, the bonus 8 and the score 80.
\<close>

theorem score_deal_formula:
  "(deals d did = Some row \<and> reports_of d did \<noteq> []
      \<and> (\<forall>r \<in> set (reports_of d did). ddr_rating r \<le> 5)
      \<and> length (reports_of d did) \<le> 2 ^ 44 \<longrightarrow>
      score_deal d now did =
        (Inr (spec_score (reports_of d did)),
         d\<lparr>deals := (deals d)(did \<mapsto>
              row\<lparr>row_score := spec_score (reports_of d did), row_updated_at := now\<rparr>)\<rparr>))
   \<and> (reachable d \<and> deals d did = Some row \<and> reports_of d did \<noteq> []
      \<and> length (reports_of d did) \<le> 2 ^ 44 \<longrightarrow>
      score_deal d now did =
        (Inr (spec_score (reports_of d did)),
         d\<lparr>deals := (deals d)(did \<mapsto>
              row\<lparr>row_score := spec_score (reports_of d did), row_updated_at := now\<rparr>)\<rparr>))
   \<and> map ddr_rating (reports_of scenario_b_db ''d1'') = [4, 5]
   \<and> map ddr_red_flags (reports_of scenario_b_db ''d1'') = [[], []]
   \<and> map ddr_category (reports_of scenario_b_db ''d1'') = [''technical'', ''market'']
   \<and> spec_avg_rating (reports_of scenario_b_db ''d1'') = 9 / 2
   \<and> spec_base_score (reports_of scenario_b_db ''d1'') = 72
   \<and> spec_penalty (reports_of scenario_b_db ''d1'') = 0
   \<and> spec_coverage_bonus (reports_of scenario_b_db ''d1'') = 8
   \<and> fst (score_deal scenario_b_db now ''d1'') = Inr 80"
proof -
  have b: "fst (score_deal scenario_b_db now ''d1'') = Inr 80"
    by (simp only: scenario_b_scored fst_conv)
  have g: "deals d did = Some row \<and> reports_of d did \<noteq> []
      \<and> (\<forall>r \<in> set (reports_of d did). ddr_rating r \<le> 5)
      \<and> length (reports_of d did) \<le> 2 ^ 44 \<longrightarrow>
      score_deal d now did =
        (Inr (spec_score (reports_of d did)),
         d\<lparr>deals := (deals d)(did \<mapsto>
              row\<lparr>row_score := spec_score (reports_of d did), row_updated_at := now\<rparr>)\<rparr>)"
    using score_deal_with_reports [of d did row now] by blast
  have h: "reachable d \<and> deals d did = Some row \<and> reports_of d did \<noteq> []
      \<and> length (reports_of d did) \<le> 2 ^ 44 \<longrightarrow>
      score_deal d now did =
        (Inr (spec_score (reports_of d did)),
         d\<lparr>deals := (deals d)(did \<mapsto>
              row\<lparr>row_score := spec_score (reports_of d did), row_updated_at := now\<rparr>)\<rparr>)"
    using score_deal_with_reports [of d did row now] reachable_report_ratings [of d did] by blast
  have l: "map ddr_rating (reports_of scenario_b_db ''d1'') = [4, 5]"
      "map ddr_red_flags (reports_of scenario_b_db ''d1'') = [[], []]"
      "map ddr_category (reports_of scenario_b_db ''d1'') = [''technical'', ''market'']"
    by (simp_all add: scenario_b_reports)
  from g h l b scenario_b_parts(1-4) show ?thesis by blast
qed

theorem score_deal_formula_witness:
  "reachable scenario_b_db
   \<and> deals scenario_b_db ''d1'' = Some acme_row \<and> reports_of scenario_b_db ''d1'' \<noteq> []
   \<and> list_all (\<lambda>r. ddr_rating r \<le> 5) (reports_of scenario_b_db ''d1'')
   \<and> length (reports_of scenario_b_db ''d1'') \<le> 2 ^ 44
   \<and> score_deal scenario_b_db ''2025-01-04T09:00:00'' ''d1'' =
        (Inr 80,
         scenario_b_db\<lparr>deals := (deals scenario_b_db)(''d1'' \<mapsto>
              acme_row\<lparr>row_score := 80, row_updated_at := ''2025-01-04T09:00:00''\<rparr>)\<rparr>)"
proof -
  have h0: "reachable scenario_b_db" by (rule reachable_scenario_b_db)
  have h1: "deals scenario_b_db ''d1'' = Some acme_row" by (rule scenario_b_db_deal)
  have s: "spec_score (reports_of scenario_b_db ''d1'') = 80" by (rule scenario_b_parts)
  have h3: "list_all (\<lambda>r. ddr_rating r \<le> 5) (reports_of scenario_b_db ''d1'')"
    using scenario_b_side(2) by (simp only: list_all_iff)
  from score_deal_formula [of scenario_b_db "''d1''" acme_row "''2025-01-04T09:00:00''",
      THEN conjunct1] h1 scenario_b_side
  have "score_deal scenario_b_db ''2025-01-04T09:00:00'' ''d1'' =
        (Inr (spec_score (reports_of scenario_b_db ''d1'')),
         scenario_b_db\<lparr>deals := (deals scenario_b_db)(''d1'' \<mapsto>
              acme_row\<lparr>row_score := spec_score (reports_of scenario_b_db ''d1''),
                       row_updated_at := ''2025-01-04T09:00:00''\<rparr>)\<rparr>)"
    by blast
  with h0 h1 h3 scenario_b_side(1,3) show ?thesis by (simp only: s simp_thms)
qed

section \<open>The persisted score\<close>

lemma scored_db_deal:
  "deals scored_db ''d1'' = Some (acme_row\<lparr>row_score := 80, row_updated_at := ''2025-01-04T09:00:00''\<rparr>)"
  by (simp add: scored_db_def scenario_b_scored)

lemma reachable_scored_db: "reachable scored_db"
  unfolding scored_db_def by (intro reach_score_deal reachable_scenario_b_db)

text \<open>
  Claim C5: in every database built by the operations, the persisted score of every deal
  lies in 0..100.  \<^verbatim>\<open>add_deal\<close> creates the deal with score 0; whatever \<^verbatim>\<open>score_deal\<close>
  returns lies in 0..100, for every set of reports, and after the call the persisted score
  of the deal is the value returned; \<^verbatim>\<open>advance_stage\<close>, \<^verbatim>\<open>pass_deal\<close>,
  \<^verbatim>\<open>add_due_diligence\<close> and \<^verbatim>\<open>log_interaction\<close> leave every persisted score as it was.
\<close>

theorem persisted_score_in_range:
  "(reachable d \<and> deals d did = Some row \<longrightarrow> 0 \<le> row_score row \<and> row_score row \<le> 100)
   \<and> (deals d uuid = None \<longrightarrow>
        (\<exists>deal. fst (add_deal d uuid now1 now2 c s r v lead asg nts fnd eml web) = Inr deal
           \<and> score deal = 0)
        \<and> map_option row_score
            (deals (snd (add_deal d uuid now1 now2 c s r v lead asg nts fnd eml web)) uuid) = Some 0)
   \<and> (score_deal d now did = (Inr sc, d') \<longrightarrow> 0 \<le> sc \<and> sc \<le> 100)
   \<and> (reachable d \<and> deals d did = Some row \<longrightarrow>
        (\<exists>sc. fst (score_deal d now did) = Inr sc \<and> 0 \<le> sc \<and> sc \<le> 100
           \<and> map_option row_score (deals (snd (score_deal d now did)) did) = Some sc))
   \<and> map_option row_score (deals (snd (advance_stage d uuid now did new_stage changed_by reason)) k)
        = map_option row_score (deals d k)
   \<and> map_option row_score (deals (snd (pass_deal d uuid now did reason passed_by)) k)
        = map_option row_score (deals d k)
   \<and> map_option row_score
        (deals (snd (add_due_diligence d uuid now1 now2 did cat fs rf rating reviewer nts)) k)
        = map_option row_score (deals d k)
   \<and> map_option row_score (deals (snd (log_interaction d uuid now1 now2 did ty descr ps dt)) k)
        = map_option row_score (deals d k)"
proof -
  have inv: "reachable d \<and> deals d did = Some row \<longrightarrow> 0 \<le> row_score row \<and> row_score row \<le> 100"
    using reachable_scores_in_range [of d] unfolding scores_in_range_def by blast
  have creation: "deals d uuid = None \<longrightarrow>
        (\<exists>deal. fst (add_deal d uuid now1 now2 c s r v lead asg nts fnd eml web) = Inr deal
           \<and> score deal = 0)
        \<and> map_option row_score
            (deals (snd (add_deal d uuid now1 now2 c s r v lead asg nts fnd eml web)) uuid) = Some 0"
    by (simp add: add_deal_def)
  have ret: "score_deal d now did = (Inr sc, d') \<longrightarrow> 0 \<le> sc \<and> sc \<le> 100"
    using score_deal_returns_in_range [of d now did sc d'] by blast
  have persist: "reachable d \<and> deals d did = Some row \<longrightarrow>
        (\<exists>sc. fst (score_deal d now did) = Inr sc \<and> 0 \<le> sc \<and> sc \<le> 100
           \<and> map_option row_score (deals (snd (score_deal d now did)) did) = Some sc)"
  proof (intro impI, elim conjE)
    assume re: "reachable d" and ex: "deals d did = Some row"
    show "\<exists>sc. fst (score_deal d now did) = Inr sc \<and> 0 \<le> sc \<and> sc \<le> 100
           \<and> map_option row_score (deals (snd (score_deal d now did)) did) = Some sc"
    proof (cases "reports_of d did = []")
      case True
      from reachable_unscored_zero [OF re] ex True have "row_score row = 0"
        unfolding unscored_zero_def by blast
      with ex True show ?thesis by (simp add: score_deal_def reports_of_def)
    next
      case False
      with ex score_deal_cases [of d did now] show ?thesis by auto
    qed
  qed
  show ?thesis
    using inv creation ret persist
    by (simp only: advance_stage_scores pass_deal_scores add_due_diligence_deals
        log_interaction_deals simp_thms)
qed

theorem persisted_score_in_range_witness:
  "reachable scored_db
   \<and> deals scored_db ''d1'' = Some (acme_row\<lparr>row_score := 80, row_updated_at := ''2025-01-04T09:00:00''\<rparr>)
   \<and> row_score (acme_row\<lparr>row_score := 80, row_updated_at := ''2025-01-04T09:00:00''\<rparr>) = 80
   \<and> 0 \<le> row_score (acme_row\<lparr>row_score := 80, row_updated_at := ''2025-01-04T09:00:00''\<rparr>)
   \<and> row_score (acme_row\<lparr>row_score := 80, row_updated_at := ''2025-01-04T09:00:00''\<rparr>) \<le> 100
   \<and> deals empty_db ''d1'' = None
   \<and> map_option row_score (deals acme_db ''d1'') = Some 0
   \<and> score_deal scenario_b_db ''2025-01-04T09:00:00'' ''d1'' = (Inr 80, scored_db)
   \<and> (0::int) \<le> 80 \<and> (80::int) \<le> 100"
proof -
  have h1: "reachable scored_db" by (rule reachable_scored_db)
  have h2: "deals scored_db ''d1''
      = Some (acme_row\<lparr>row_score := 80, row_updated_at := ''2025-01-04T09:00:00''\<rparr>)"
    by (rule scored_db_deal)
  have h3: "deals empty_db ''d1'' = None" by (simp add: empty_db_def)
  have h4: "score_deal scenario_b_db ''2025-01-04T09:00:00'' ''d1'' = (Inr 80, scored_db)"
    by (simp add: scored_db_def scenario_b_scored)
  note inst = persisted_score_in_range [of scored_db "''d1''"
      "acme_row\<lparr>row_score := 80, row_updated_at := ''2025-01-04T09:00:00''\<rparr>"]
  from inst [THEN conjunct1] h1 h2
  have a: "0 \<le> row_score (acme_row\<lparr>row_score := 80, row_updated_at := ''2025-01-04T09:00:00''\<rparr>)
      \<and> row_score (acme_row\<lparr>row_score := 80, row_updated_at := ''2025-01-04T09:00:00''\<rparr>) \<le> 100"
    by blast
  from persisted_score_in_range [of empty_db _ _ "''d1''" "''2025-01-01T09:00:00''"
      "''2025-01-01T09:00:00''" "''AcmeCo''" "''SaaS''" 5000000 25000000 None None "[]" "[]" "[]" "[]",
      THEN conjunct2, THEN conjunct1] h3
  have b: "map_option row_score (deals acme_db ''d1'') = Some 0"
    unfolding acme_db_def by blast
  from persisted_score_in_range [of scenario_b_db "''d1''" _ _ _ _ _ _ _ _ _ _ _ _ _ _
      "''2025-01-04T09:00:00''" 80 scored_db, THEN conjunct2, THEN conjunct2, THEN conjunct1] h4
  have c: "(0::int) \<le> 80 \<and> (80::int) \<le> 100" by blast
  from h1 h2 h3 h4 a b c show ?thesis by simp
qed

text \<open>
  Claim C2, as stated, fails: on the freshly created deal, which has no reports,
  \<^verbatim>\<open>score_deal\<close> returns 0 and the database is the one before the call.  Nothing is
  persisted, and \<^verbatim>\<open>updated_at\<close> keeps the time of creation instead of the time of the call.
\<close>

theorem score_deal_no_reports_keeps_updated_at:
  "fst (score_deal acme_db ''2025-02-01T09:00:00'' ''d1'') = Inr 0
   \<and> snd (score_deal acme_db ''2025-02-01T09:00:00'' ''d1'') = acme_db
   \<and> map_option row_updated_at (deals (snd (score_deal acme_db ''2025-02-01T09:00:00'' ''d1'')) ''d1'')
       = Some ''2025-01-01T09:00:00''
   \<and> map_option row_updated_at (deals (snd (score_deal acme_db ''2025-02-01T09:00:00'' ''d1'')) ''d1'')
       \<noteq> Some ''2025-02-01T09:00:00''"
  by (simp add: score_deal_def acme_db_eq)

text \<open>
  Claim C2, amended: for an existing deal with no reports, \<^verbatim>\<open>score_deal\<close> returns 0 and
  writes nothing, so that neither the score nor \<^verbatim>\<open>updated_at\<close> is touched.  In a database
  built by the operations the persisted score of such a deal is 0 already.
\<close>

theorem score_deal_no_reports:
  "(deals d did = Some row \<and> reports_of d did = [] \<longrightarrow> score_deal d now did = (Inr 0, d))
   \<and> (reachable d \<and> deals d did = Some row \<and> reports_of d did = [] \<longrightarrow> row_score row = 0)"
proof -
  have "reachable d \<and> deals d did = Some row \<and> reports_of d did = [] \<longrightarrow> row_score row = 0"
    using reachable_unscored_zero [of d] unfolding unscored_zero_def by blast
  then show ?thesis by (simp add: score_deal_def reports_of_def)
qed

theorem score_deal_no_reports_witness:
  "reachable acme_db \<and> deals acme_db ''d1'' = Some acme_row \<and> reports_of acme_db ''d1'' = []
   \<and> score_deal acme_db ''2025-02-01T09:00:00'' ''d1'' = (Inr 0, acme_db)
   \<and> row_score acme_row = 0"
proof -
  have h1: "reachable acme_db" by (rule reachable_acme_db)
  have h2: "deals acme_db ''d1'' = Some acme_row" by (rule acme_db_deal)
  have h3: "reports_of acme_db ''d1'' = []" by (simp add: reports_of_def acme_db_eq)
  show ?thesis
    using h1 h2 h3 score_deal_no_reports [of acme_db "''d1''" acme_row "''2025-02-01T09:00:00''"]
    by simp
qed

section \<open>Multiple on capital\<close>

lemma scenario_a_quotient: "py_round2 (fl (25000000 / 5000000)) = 5"
  by code_simp

text \<open>
  Claim C9: \<^verbatim>\<open>multiple_on_capital\<close> is 0 when the raise amount is 0; otherwise it is the
  float quotient of valuation by raise amount rounded to two decimals, that is, the float
  nearest to a number of hundredths that lies within half a hundredth of the quotient.  For
  the deal of Scenario A (raise 5,000,000, valuation 25,000,000) it is 5.
\<close>

theorem multiple_on_capital_rounded:
  "(raise_amount deal = 0 \<longrightarrow> multiple_on_capital deal = 0)
   \<and> (raise_amount deal \<noteq> 0 \<longrightarrow>
        (\<exists>m::int. multiple_on_capital deal = fl (of_int m / 100)
           \<and> \<bar>of_int m / 100 - fl (valuation deal / raise_amount deal)\<bar> \<le> 1 / 200))
   \<and> raise_amount acme_deal = 5000000 \<and> valuation acme_deal = 25000000
   \<and> multiple_on_capital acme_deal = 5"
proof -
  have r: "\<bar>of_int (round_half_even (x * 100)) / 100 - x\<bar> \<le> 1 / 200" for x :: rat
    using round_half_even_error [of "x * 100"] by (simp add: field_simps abs_le_iff)
  have "raise_amount deal \<noteq> 0 \<longrightarrow>
        (\<exists>m::int. multiple_on_capital deal = fl (of_int m / 100)
           \<and> \<bar>of_int m / 100 - fl (valuation deal / raise_amount deal)\<bar> \<le> 1 / 200)"
    using r [of "fl (valuation deal / raise_amount deal)"]
    by (auto simp: multiple_on_capital_def py_round2_def)
  moreover have "multiple_on_capital acme_deal = 5"
    using scenario_a_quotient by (simp add: multiple_on_capital_def acme_deal_def)
  ultimately show ?thesis
    by (simp add: multiple_on_capital_def acme_deal_def)
qed

theorem multiple_on_capital_rounded_witness:
  "raise_amount (acme_deal\<lparr>raise_amount := 0\<rparr>) = 0
   \<and> multiple_on_capital (acme_deal\<lparr>raise_amount := 0\<rparr>) = 0
   \<and> raise_amount acme_deal \<noteq> 0
   \<and> (\<exists>m::int. multiple_on_capital acme_deal = fl (of_int m / 100)
           \<and> \<bar>of_int m / 100 - fl (valuation acme_deal / raise_amount acme_deal)\<bar> \<le> 1 / 200)
   \<and> multiple_on_capital acme_deal = 5"
proof -
  have h0: "raise_amount (acme_deal\<lparr>raise_amount := 0\<rparr>) = 0" by simp
  have h1: "raise_amount acme_deal \<noteq> 0" by (simp add: acme_deal_def)
  from multiple_on_capital_rounded [of "acme_deal\<lparr>raise_amount := 0\<rparr>"] h0
  have z: "multiple_on_capital (acme_deal\<lparr>raise_amount := 0\<rparr>) = 0" by blast
  from multiple_on_capital_rounded [of acme_deal] h1
  have "(\<exists>m::int. multiple_on_capital acme_deal = fl (of_int m / 100)
           \<and> \<bar>of_int m / 100 - fl (valuation acme_deal / raise_amount acme_deal)\<bar> \<le> 1 / 200)
        \<and> multiple_on_capital acme_deal = 5"
    by blast
  with h0 h1 z show ?thesis by blast
qed

end
